theory Spec2Isabelle
  imports Complex_Main "HOL-Library.AList"
begin

section \<open>JavaScript values\<close>

text \<open>
  The pipeline handles values of TypeScript type \<open>any\<close>: what \<open>JSON.parse\<close> made of the
  provider's response (null, booleans, numbers, strings, arrays, objects), the \<open>Date\<close>
  objects and the \<open>undefined\<close> that \<open>processFinancialData\<close> writes into a record, and the
  timestamp wrapper that \<open>insertFinancialsToTempTable\<close> puts into a row.

  A number is \<open>NaN\<close>, an infinity or a finite value. A finite value is kept as the rational
  it denotes: the rounding of a decimal literal to the nearest double and the sign of zero
  are not modelled, and nothing below depends on them.

  A \<open>Date\<close> is its time value: the milliseconds since 1970-01-01T00:00:00Z, or
  \<open>InvalidDate\<close> for the time value \<open>NaN\<close>.

  An object is the list of its own enumerable properties in enumeration order, which for
  the property names of this program (none of them an array index) is insertion order.
\<close>

datatype jsnum = NaN | PosInf | NegInf | Fin rat

datatype jsdate = InvalidDate | Instant int

datatype jsval =
    JUndefined
  | JNull
  | JBool bool
  | JNum jsnum
  | JStr string
  | JDate jsdate
  | JTimestamp jsval
  | JArr "jsval list"
  | JObj "(string \<times> jsval) list"

type_synonym props = "(string \<times> jsval) list"

datatype jstype = TUndefined | TObject | TBoolean | TNumber | TString

text \<open>The \<open>typeof\<close> operator.\<close>

fun typeof :: "jsval \<Rightarrow> jstype" where
  "typeof JUndefined = TUndefined"
| "typeof JNull = TObject"
| "typeof (JBool b) = TBoolean"
| "typeof (JNum n) = TNumber"
| "typeof (JStr s) = TString"
| "typeof (JDate d) = TObject"
| "typeof (JTimestamp t) = TObject"
| "typeof (JArr xs) = TObject"
| "typeof (JObj ps) = TObject"

text \<open>
  What \<open>!v\<close>, \<open>a || b\<close> and \<open>if (v)\<close> test: \<open>undefined\<close>, \<open>null\<close>, \<open>false\<close>, \<open>NaN\<close>,
  zero and the empty string are falsy, everything else (every object) is truthy.
\<close>

fun truthy :: "jsval \<Rightarrow> bool" where
  "truthy JUndefined = False"
| "truthy JNull = False"
| "truthy (JBool b) = b"
| "truthy (JNum NaN) = False"
| "truthy (JNum (Fin q)) = (q \<noteq> 0)"
| "truthy (JNum n) = True"
| "truthy (JStr s) = (s \<noteq> [])"
| "truthy v = True"

text \<open>\<open>a || b\<close>.\<close>

definition jsOr :: "jsval \<Rightarrow> jsval \<Rightarrow> jsval" where
  "jsOr a b = (if truthy a then a else b)"

text \<open>The decimal numeral of a natural number: the name of an array index.\<close>

definition digitChar :: "nat \<Rightarrow> char" where
  "digitChar n = ''0123456789'' ! n"

fun showNat :: "nat \<Rightarrow> string" where
  "showNat n =
     (if n < 10 then [digitChar n]
      else showNat (n div 10) @ [digitChar (n mod 10)])"

definition indexed :: "jsval list \<Rightarrow> props" where
  "indexed xs = zip (map showNat [0..<length xs]) xs"

text \<open>
  The own enumerable string-keyed properties of a value, as \<open>Object.entries(v)\<close> lists them
  and as the spread \<open>{...v}\<close> copies them: the properties of an object, the elements of an
  array and the characters of a string under their indices, and nothing for a number, a
  boolean, \<open>null\<close> or \<open>undefined\<close> (\<open>Object.entries\<close> throws on the last two; every call
  of this program guards them with \<open>|| {}\<close> or a truthiness test). A \<open>Date\<close> and a timestamp
  wrapper are treated as having none.
\<close>

fun ownEntries :: "jsval \<Rightarrow> props" where
  "ownEntries (JObj ps) = ps"
| "ownEntries (JArr xs) = indexed xs"
| "ownEntries (JStr s) = indexed (map (\<lambda>c. JStr [c]) s)"
| "ownEntries v = []"

definition objectKeys :: "jsval \<Rightarrow> string list" where
  "objectKeys v = map fst (ownEntries v)"

text \<open>
  Reading a property with optional chaining, \<open>v?.k\<close> or \<open>v?.[k]\<close>, which is
  \<open>undefined\<close> on \<open>null\<close> and \<open>undefined\<close>. The program reads only the names \<open>General\<close>, \<open>Code\<close>, \<open>ETF_Data\<close>,
  \<open>Financials\<close>, the statement and period names and \<open>filing_date\<close>: none is an index,
  \<open>length\<close> or a method of a prototype, so on anything but a plain object the result is
  \<open>undefined\<close>.
\<close>

fun getProp :: "jsval \<Rightarrow> string \<Rightarrow> jsval" where
  "getProp (JObj ps) k = (case map_of ps k of Some v \<Rightarrow> v | None \<Rightarrow> JUndefined)"
| "getProp v k = JUndefined"

text \<open>
  Writing a property, \<open>o[k] = v\<close> or one more entry of an object literal: an existing
  property keeps its place and takes the new value, a new one is appended.
\<close>

definition setProp :: "props \<Rightarrow> string \<Rightarrow> jsval \<Rightarrow> props" where
  "setProp ps k v = AList.update k v ps"

text \<open>The spread \<open>{...target, ...src}\<close>: the properties of \<open>src\<close> are written in order.\<close>

definition spread :: "props \<Rightarrow> props \<Rightarrow> props" where
  "spread target src = foldl (\<lambda>acc (k, v). setProp acc k v) target src"

section \<open>Errors\<close>

text \<open>
  What the program throws itself (\<open>NoFinancialsError\<close>, \<open>EtfError\<close>), what the runtime
  throws (\<open>RangeError\<close> from \<open>Date.prototype.toISOString\<close> on an invalid date,
  \<open>TypeError\<close> from reading a property of \<open>null\<close> or \<open>undefined\<close>), and any
  other \<open>Error\<close> with its message: a failure of the provider, of the document store
  or of the analytical store.
\<close>

datatype err = NoFinancialsError | EtfError | RangeError | TypeError | JsError string

text \<open>Reading a property without optional chaining, \<open>v.k\<close>.\<close>

definition getPropStrict :: "jsval \<Rightarrow> string \<Rightarrow> err + jsval" where
  "getPropStrict v k =
     (if v = JNull \<or> v = JUndefined then Inl TypeError else Inr (getProp v k))"

text \<open>
  A loop whose body may throw: \<open>forEach\<close> or \<open>for ... of\<close> over a list, threading the
  state the body mutates; the first exception ends the loop.
\<close>

fun forEachM :: "('s \<Rightarrow> 'a \<Rightarrow> err + 's) \<Rightarrow> 'a list \<Rightarrow> 's \<Rightarrow> err + 's" where
  "forEachM f [] s = Inr s"
| "forEachM f (x # xs) s = (case f s x of Inl e \<Rightarrow> Inl e | Inr s' \<Rightarrow> forEachM f xs s')"

section \<open>Dates\<close>

text \<open>
  Days between 1970-01-01 and a date of the proleptic Gregorian calendar, and back.
\<close>

definition daysFromCivil :: "int \<Rightarrow> int \<Rightarrow> int \<Rightarrow> int" where
  "daysFromCivil y m d =
     (let y' = (if m \<le> 2 then y - 1 else y);
          era = y' div 400;
          yoe = y' - era * 400;
          doy = (153 * (if m > 2 then m - 3 else m + 9) + 2) div 5 + d - 1;
          doe = yoe * 365 + yoe div 4 - yoe div 100 + doy
      in era * 146097 + doe - 719468)"

definition civilFromDays :: "int \<Rightarrow> int \<times> int \<times> int" where
  "civilFromDays z =
     (let z' = z + 719468;
          era = z' div 146097;
          doe = z' - era * 146097;
          yoe = (doe - doe div 1460 + doe div 36524 - doe div 146096) div 365;
          doy = doe - (365 * yoe + yoe div 4 - yoe div 100);
          mp = (5 * doy + 2) div 153;
          d = doy - (153 * mp + 2) div 5 + 1;
          m = (if mp < 10 then mp + 3 else mp - 9);
          y = yoe + era * 400
      in (if m \<le> 2 then y + 1 else y, m, d))"

definition isLeapYear :: "int \<Rightarrow> bool" where
  "isLeapYear y = (y mod 4 = 0 \<and> (y mod 100 \<noteq> 0 \<or> y mod 400 = 0))"

definition daysInMonth :: "int \<Rightarrow> int \<Rightarrow> int" where
  "daysInMonth y m =
     (if m = 2 then (if isLeapYear y then 29 else 28)
      else if m = 4 \<or> m = 6 \<or> m = 9 \<or> m = 11 then 30 else 31)"

definition isDigit :: "char \<Rightarrow> bool" where
  "isDigit c = (48 \<le> (of_char c :: nat) \<and> (of_char c :: nat) \<le> 57)"

definition digitVal :: "char \<Rightarrow> int" where
  "digitVal c = of_char c - 48"

definition readNat :: "string \<Rightarrow> int" where
  "readNat s = foldl (\<lambda>acc c. 10 * acc + digitVal c) 0 s"

text \<open>
  The date strings of the provider: the period keys and filing dates of the single-ticker
  response have the type \<open>Datestring\<close> of \<open>EodhdClient.ts\<close>, \<open>YYYY-MM-DD\<close>. A string of
  this form that names a day of the calendar is read as that day; a day that does not
  exist (\<open>2023-02-30\<close>) makes the moment invalid.

  \<open>moment\<close> reads more than this (other ISO 8601 forms, timestamps, \<open>Date\<close> objects, and
  whatever the engine's \<open>Date\<close> constructor accepts as a last resort). Those inputs are
  outside this model, which treats everything but a \<open>Datestring\<close> as not a date. A word
  such as \<open>quarterly_last_0\<close> is not a date for \<open>moment\<close> either.
\<close>

definition parseDatestring :: "string \<Rightarrow> (int \<times> int \<times> int) option" where
  "parseDatestring s =
     (if length s = 10 \<and> s ! 4 = CHR ''-'' \<and> s ! 7 = CHR ''-''
         \<and> list_all isDigit (take 4 s @ take 2 (drop 5 s) @ drop 8 s)
      then
        (let y = readNat (take 4 s);
             m = readNat (take 2 (drop 5 s));
             d = readNat (drop 8 s)
         in if 1 \<le> m \<and> m \<le> 12 \<and> 1 \<le> d \<and> d \<le> daysInMonth y m then Some (y, m, d)
            else None)
      else None)"

text \<open>
  The zone \<open>America/New_York\<close> under the rule in force since 2007: daylight saving time
  (UTC-4) from the second Sunday of March to the first Sunday of November, standard time
  (UTC-5) otherwise. Both changes happen at 02:00 local time, so at 16:00 the offset
  depends on the day alone. Earlier years followed other rules, which are not modelled.
\<close>

definition weekday :: "int \<Rightarrow> int" where
  "weekday z = (z + 4) mod 7"

definition sundayOnOrAfter :: "int \<Rightarrow> int \<Rightarrow> int \<Rightarrow> int" where
  "sundayOnOrAfter y m d = (let z = daysFromCivil y m d in z + (7 - weekday z) mod 7)"

definition isDaylightTime :: "int \<Rightarrow> int \<Rightarrow> int \<Rightarrow> bool" where
  "isDaylightTime y m d =
     (let z = daysFromCivil y m d
      in sundayOnOrAfter y 3 8 \<le> z \<and> z < sundayOnOrAfter y 11 1)"

definition utcOffsetHours :: "int \<Rightarrow> int \<Rightarrow> int \<Rightarrow> int" where
  "utcOffsetHours y m d = (if isDaylightTime y m d then - 4 else - 5)"

text \<open>
  \<open>getClose\<close>: the day named by the argument, at 16:00:00.000 in New York, as a \<open>Date\<close>.
\<close>

definition getClose :: "jsval \<Rightarrow> jsdate" where
  "getClose datestring =
     (case datestring of
        JStr s \<Rightarrow>
          (case parseDatestring s of
             Some (y, m, d) \<Rightarrow>
               Instant ((daysFromCivil y m d * 24 + 16 - utcOffsetHours y m d) * 3600000)
           | None \<Rightarrow> InvalidDate)
      | _ \<Rightarrow> InvalidDate)"

definition padLeft :: "nat \<Rightarrow> string \<Rightarrow> string" where
  "padLeft w s = replicate (w - length s) (CHR ''0'') @ s"

definition showPadded :: "nat \<Rightarrow> int \<Rightarrow> string" where
  "showPadded w n = padLeft w (showNat (nat n))"

text \<open>
  \<open>Date.prototype.toISOString\<close>: \<open>YYYY-MM-DDTHH:mm:ss.sssZ\<close> in UTC, with a sign and six
  digits for a year outside 0..9999, and a \<open>RangeError\<close> for an invalid date.
\<close>

definition toISOString :: "jsdate \<Rightarrow> err + string" where
  "toISOString dt =
     (case dt of
        InvalidDate \<Rightarrow> Inl RangeError
      | Instant t \<Rightarrow>
          (let (y, m, d) = civilFromDays (t div 86400000);
               ms = t mod 86400000;
               year = (if 0 \<le> y \<and> y \<le> 9999 then showPadded 4 y
                       else (if y < 0 then ''-'' else ''+'') @ showPadded 6 (abs y))
           in Inr (year @ ''-'' @ showPadded 2 m @ ''-'' @ showPadded 2 d @ ''T''
                   @ showPadded 2 (ms div 3600000) @ '':''
                   @ showPadded 2 (ms mod 3600000 div 60000) @ '':''
                   @ showPadded 2 (ms mod 60000 div 1000) @ ''.''
                   @ showPadded 3 (ms mod 1000) @ ''Z'')))"

text \<open>The call \<open>v.toISOString()\<close> on a value: only a \<open>Date\<close> has the method.\<close>

definition callToISOString :: "jsval \<Rightarrow> err + string" where
  "callToISOString v = (case v of JDate dt \<Rightarrow> toISOString dt | _ \<Rightarrow> Inl TypeError)"

section \<open>Record normalizer\<close>

text \<open>
  \<open>processFinancialData\<close>: the object literal
  \<open>{...details, ticker, symbol: ticker, date: getClose(details?.filing_date || dictKey),
  filing_date: undefined}\<close>, its entries written in order.
\<close>

definition processFinancialData :: "jsval \<Rightarrow> string \<Rightarrow> jsval \<Rightarrow> props" where
  "processFinancialData ticker dictKey details =
     setProp
       (setProp
          (setProp
             (setProp (spread [] (ownEntries details)) ''ticker'' ticker)
             ''symbol'' ticker)
          ''date'' (JDate (getClose (jsOr (getProp details ''filing_date'') (JStr dictKey)))))
       ''filing_date'' JUndefined"

text \<open>
  A \<open>Map<string, any>\<close> whose values are records: the list of its entries in insertion
  order. \<open>map.set\<close> on a key of the map keeps the key's place.
\<close>

type_synonym recmap = "(string \<times> props) list"

text \<open>
  \<open>mergeRecord\<close>. The key has type \<open>string | undefined\<close>; \<open>!key\<close> holds for
  \<open>undefined\<close> and for the empty string. What \<open>map.get(key)\<close> finds is a record, which is
  truthy, so \<open>map.get(key) || {}\<close> is the record found or the empty object.
\<close>

definition mergeRecord :: "recmap \<Rightarrow> string option \<Rightarrow> props \<Rightarrow> recmap" where
  "mergeRecord m key newData =
     (case key of
        None \<Rightarrow> m
      | Some k \<Rightarrow>
          if k = [] then m
          else
            (let existing = (case map_of m k of Some r \<Rightarrow> r | None \<Rightarrow> [])
             in AList.update k (spread existing newData) m))"

text \<open>
  The body of the inner \<open>forEach\<close> of \<open>fetchFinancials\<close>, for one period entry:
  \<open>record = processFinancialData(ticker, dictKey, details)\<close>,
  \<open>key = record.date.toISOString()\<close>, \<open>mergeRecord(map, key, record)\<close>.
\<close>

definition mergeEntry :: "jsval \<Rightarrow> recmap \<Rightarrow> string \<times> jsval \<Rightarrow> err + recmap" where
  "mergeEntry ticker m e =
     (case e of (dictKey, details) \<Rightarrow>
        (let record = processFinancialData ticker dictKey details
         in case callToISOString (getProp (JObj record) ''date'') of
              Inl x \<Rightarrow> Inl x
            | Inr key \<Rightarrow> Inr (mergeRecord m (Some key) record)))"

text \<open>
  \<open>Object.values(data).forEach((statementObj) => { if (!statementObj) return;
  Object.entries(statementObj).forEach(...) })\<close>, over the three statements of one period
  granularity, from an empty map.
\<close>

definition mergeStatement :: "jsval \<Rightarrow> recmap \<Rightarrow> jsval \<Rightarrow> err + recmap" where
  "mergeStatement ticker m statementObj =
     (if \<not> truthy statementObj then Inr m
      else forEachM (mergeEntry ticker) (ownEntries statementObj) m)"

definition mergeStatements :: "jsval \<Rightarrow> jsval list \<Rightarrow> err + recmap" where
  "mergeStatements ticker statements = forEachM (mergeStatement ticker) statements []"

definition quarterlyData :: "jsval \<Rightarrow> jsval list" where
  "quarterlyData fundamentals =
     (let financials = getProp fundamentals ''Financials''
      in [jsOr (getProp (getProp financials ''Balance_Sheet'') ''quarterly'') (JObj []),
          jsOr (getProp (getProp financials ''Cash_Flow'') ''quarterly'') (JObj []),
          jsOr (getProp (getProp financials ''Income_Statement'') ''quarterly'') (JObj [])])"

definition yearlyData :: "jsval \<Rightarrow> jsval list" where
  "yearlyData fundamentals =
     (let financials = getProp fundamentals ''Financials''
      in [jsOr (getProp (getProp financials ''Balance_Sheet'') ''yearly'') (JObj []),
          jsOr (getProp (getProp financials ''Cash_Flow'') ''yearly'') (JObj []),
          jsOr (getProp (getProp financials ''Income_Statement'') ''yearly'') (JObj [])])"

record financials =
  quarterly :: "props list"
  annual :: "props list"

text \<open>
  \<open>fetchFinancials\<close>. The first argument is the ticker, the second what
  \<open>client.getFundamentals(ticker)\<close> gave: the payload, or the error it threw.
\<close>

definition fetchFinancials :: "string \<Rightarrow> err + jsval \<Rightarrow> err + financials" where
  "fetchFinancials ticker response =
     (case response of
        Inl e \<Rightarrow> Inl e
      | Inr fundamentals \<Rightarrow>
          if \<not> truthy fundamentals then Inl NoFinancialsError
          else if truthy (getProp fundamentals ''ETF_Data'') then Inl EtfError
          else if length (objectKeys (jsOr (getProp fundamentals ''Financials'') (JObj []))) = 0
          then Inl NoFinancialsError
          else
            (case mergeStatements (JStr ticker) (quarterlyData fundamentals) of
               Inl e \<Rightarrow> Inl e
             | Inr quarterlyMap \<Rightarrow>
                 (case mergeStatements (JStr ticker) (yearlyData fundamentals) of
                    Inl e \<Rightarrow> Inl e
                  | Inr annualMap \<Rightarrow>
                      Inr \<lparr>quarterly = map snd quarterlyMap, annual = map snd annualMap\<rparr>)))"

section \<open>Schema inference\<close>

record schemaField =
  name :: string
  type :: string

definition requiredFields :: "schemaField list" where
  "requiredFields =
     [\<lparr>name = ''ticker'', type = ''STRING''\<rparr>,
      \<lparr>name = ''symbol'', type = ''STRING''\<rparr>,
      \<lparr>name = ''date'', type = ''TIMESTAMP''\<rparr>]"

text \<open>\<open>Set.add\<close> on a \<open>Set\<close> kept in insertion order.\<close>

definition setAdd :: "string list \<Rightarrow> string \<Rightarrow> string list" where
  "setAdd s k = (if k \<in> set s then s else s @ [k])"

text \<open>The body of \<open>data.forEach\<close> in \<open>generateBigQuerySchema\<close>, for one entry of one item.\<close>

definition scanEntry :: "string list \<Rightarrow> string \<times> jsval \<Rightarrow> string list" where
  "scanEntry numericFields e =
     (case e of (key, value) \<Rightarrow>
        if key \<notin> set [''ticker'', ''symbol'', ''date''] then
          (if typeof value = TNumber then setAdd numericFields key else numericFields)
        else numericFields)"

definition scanItem :: "string list \<Rightarrow> props \<Rightarrow> string list" where
  "scanItem numericFields item = foldl scanEntry numericFields item"

definition generateBigQuerySchema :: "props list \<Rightarrow> schemaField list" where
  "generateBigQuerySchema data =
     requiredFields @
     map (\<lambda>field. \<lparr>name = field, type = ''FLOAT64''\<rparr>) (foldl scanItem [] data)"

text \<open>A field name is observed as a native number somewhere in the batch.\<close>

definition observedNumeric :: "props list \<Rightarrow> string \<Rightarrow> bool" where
  "observedNumeric data f =
     list_ex (\<lambda>item. list_ex (\<lambda>e. fst e = f \<and> typeof (snd e) = TNumber) item) data"

text \<open>
  \<open>filterRecordForBQ\<close>: the properties of the record whose names the schema lists.
\<close>

definition filterRecordForBQ :: "props \<Rightarrow> schemaField list \<Rightarrow> props" where
  "filterRecordForBQ record schema =
     (let allowedFields = map name schema
      in foldl (\<lambda>filtered key.
                  if key \<in> set allowedFields
                  then setProp filtered key (getProp (JObj record) key)
                  else filtered)
           [] (objectKeys (JObj record)))"

section \<open>Conversion to a number\<close>

text \<open>
  \<open>Number(s)\<close> for a string: white space is trimmed; the empty string is 0; otherwise
  the string must be a numeric literal, that is \<open>0x\<close>, \<open>0o\<close> or \<open>0b\<close> followed by digits
  of that radix, or an optionally signed \<open>Infinity\<close>, or an optionally signed decimal
  literal (digits, an optional fraction, an optional exponent, with a digit before or after
  the point); anything else is \<open>NaN\<close>. Strings are ASCII here, so the white space is tab,
  line feed, vertical tab, form feed, carriage return and space.
\<close>

definition isStrWhiteSpace :: "char \<Rightarrow> bool" where
  "isStrWhiteSpace c = ((of_char c :: nat) \<in> set [9, 10, 11, 12, 13, 32])"

definition trimString :: "string \<Rightarrow> string" where
  "trimString s = rev (dropWhile isStrWhiteSpace (rev (dropWhile isStrWhiteSpace s)))"

definition radixDigit :: "char \<Rightarrow> int option" where
  "radixDigit c =
     (let n = (of_char c :: int)
      in if 48 \<le> n \<and> n \<le> 57 then Some (n - 48)
         else if 97 \<le> n \<and> n \<le> 102 then Some (n - 87)
         else if 65 \<le> n \<and> n \<le> 70 then Some (n - 55)
         else None)"

definition readRadix :: "int \<Rightarrow> string \<Rightarrow> jsnum" where
  "readRadix b ds =
     (if ds \<noteq> [] \<and> list_all (\<lambda>c. case radixDigit c of Some v \<Rightarrow> v < b | None \<Rightarrow> False) ds
      then Fin (of_int (foldl (\<lambda>acc c. b * acc + (case radixDigit c of Some v \<Rightarrow> v | None \<Rightarrow> 0))
                          0 ds))
      else NaN)"

definition readExponent :: "string \<Rightarrow> int option" where
  "readExponent s =
     (case s of
        [] \<Rightarrow> Some 0
      | c # t \<Rightarrow>
          if c = CHR ''e'' \<or> c = CHR ''E'' then
            (let (neg, ds) =
               (case t of
                  [] \<Rightarrow> (False, [])
                | x # r \<Rightarrow>
                    if x = CHR ''+'' then (False, r)
                    else if x = CHR ''-'' then (True, r)
                    else (False, t))
             in if ds \<noteq> [] \<and> list_all isDigit ds
                then Some (if neg then - readNat ds else readNat ds)
                else None)
          else None)"

definition readUnsignedDecimal :: "string \<Rightarrow> rat option" where
  "readUnsignedDecimal s =
     (let ip = takeWhile isDigit s;
          r1 = dropWhile isDigit s;
          (fp, r2) =
            (case r1 of
               [] \<Rightarrow> ([], [])
             | c # t \<Rightarrow>
                 if c = CHR ''.'' then (takeWhile isDigit t, dropWhile isDigit t)
                 else ([], r1))
      in if ip = [] \<and> fp = [] then None
         else
           (case readExponent r2 of
              None \<Rightarrow> None
            | Some e \<Rightarrow>
                (let mantissa = of_int (readNat ip) + of_int (readNat fp) / 10 ^ length fp
                 in Some (if 0 \<le> e then mantissa * 10 ^ nat e
                          else mantissa / 10 ^ nat (- e)))))"

definition stringToNumber :: "string \<Rightarrow> jsnum" where
  "stringToNumber s =
     (let t = trimString s
      in if t = [] then Fin 0
         else if take 2 t = ''0x'' \<or> take 2 t = ''0X'' then readRadix 16 (drop 2 t)
         else if take 2 t = ''0o'' \<or> take 2 t = ''0O'' then readRadix 8 (drop 2 t)
         else if take 2 t = ''0b'' \<or> take 2 t = ''0B'' then readRadix 2 (drop 2 t)
         else
           (let (neg, u) =
              (case t of
                 [] \<Rightarrow> (False, [])
               | c # r \<Rightarrow>
                   if c = CHR ''+'' then (False, r)
                   else if c = CHR ''-'' then (True, r)
                   else (False, t))
            in if u = ''Infinity'' then (if neg then NegInf else PosInf)
               else
                 (case readUnsignedDecimal u of
                    None \<Rightarrow> NaN
                  | Some q \<Rightarrow> Fin (if neg then - q else q))))"

text \<open>
  \<open>Number(v)\<close>. \<open>null\<close> is 0, \<open>undefined\<close> is \<open>NaN\<close>, a boolean is 0 or 1, a \<open>Date\<close> is
  its time value. A plain object and the timestamp wrapper become the string
  \<open>[object Object]\<close> first, which is \<open>NaN\<close>. An array becomes the string of its elements
  joined by commas first: 0 for the empty array (the empty string), \<open>NaN\<close> for two or more
  elements (the string holds a comma), and for one element the number of that element's
  string, which is the empty string for \<open>null\<close> and \<open>undefined\<close>, the number itself for a
  number, and not a numeric literal for a boolean, a \<open>Date\<close> or an object.
\<close>

fun toNumber :: "jsval \<Rightarrow> jsnum" where
  "toNumber JUndefined = NaN"
| "toNumber JNull = Fin 0"
| "toNumber (JBool b) = Fin (if b then 1 else 0)"
| "toNumber (JNum n) = n"
| "toNumber (JStr s) = stringToNumber s"
| "toNumber (JDate dt) = (case dt of InvalidDate \<Rightarrow> NaN | Instant t \<Rightarrow> Fin (of_int t))"
| "toNumber (JTimestamp v) = NaN"
| "toNumber (JObj ps) = NaN"
| "toNumber (JArr []) = Fin 0"
| "toNumber (JArr [JUndefined]) = Fin 0"
| "toNumber (JArr [JNull]) = Fin 0"
| "toNumber (JArr [JNum n]) = n"
| "toNumber (JArr [JStr s]) = stringToNumber s"
| "toNumber (JArr [JArr xs]) = toNumber (JArr xs)"
| "toNumber (JArr xs) = NaN"

definition isNaN :: "jsnum \<Rightarrow> bool" where
  "isNaN n = (n = NaN)"

section \<open>The world outside\<close>

text \<open>
  What the program does to the provider, the document store, the analytical store, the
  clock and the console is a list of events in the order of the calls. Of the console
  only \<open>console.error\<close> is recorded, with the message that opens the line.
\<close>

record updateOne =
  filterBy :: props
  update :: props
  upsert :: bool

datatype event =
    GetFundamentals string
  | GetBulkFundamentals "string list"
  | BulkWrite string "updateOne list"
  | CreateTable string "schemaField list"
  | TableInsert string "props list"
  | Query string
  | Timeout nat
  | ConsoleError string

text \<open>
  What the outside answers. Each field gives the outcome of one kind of call as a function
  of its arguments: the payload or the rows, or the error thrown.
  \<open>bqCreateTable\<close> stands for one call of \<open>createTable\<close> of \<open>bigQuery.ts\<close> as a whole (the
  existence check, the creation and the polling for visibility), \<open>bqCredentials\<close> for
  \<open>setupCredentials\<close>, \<open>dateNow\<close> for \<open>Date.now()\<close>.
\<close>

record world =
  getFundamentals :: "string \<Rightarrow> err + jsval"
  getBulkFundamentals :: "string list \<Rightarrow> err + jsval list"
  mongoBulkWrite :: "string \<Rightarrow> updateOne list \<Rightarrow> err + unit"
  bqCredentials :: "err + unit"
  dateNow :: nat
  bqCreateTable :: "string \<Rightarrow> schemaField list \<Rightarrow> err + unit"
  bqInsert :: "string \<Rightarrow> props list \<Rightarrow> err + unit"
  bqQuery :: "string \<Rightarrow> err + jsval list"

text \<open>
  An asynchronous computation: the events it caused, and its value or the error it threw.
  The events before a throw stay.
\<close>

type_synonym 'a io = "event list \<times> (err + 'a)"

definition returnIO :: "'a \<Rightarrow> 'a io" where
  "returnIO x = ([], Inr x)"

definition throwIO :: "err \<Rightarrow> 'a io" where
  "throwIO e = ([], Inl e)"

definition call :: "event \<Rightarrow> err + 'a \<Rightarrow> 'a io" where
  "call ev outcome = ([ev], outcome)"

definition bindIO :: "'a io \<Rightarrow> ('a \<Rightarrow> 'b io) \<Rightarrow> 'b io" where
  "bindIO m f =
     (case m of
        (evs, Inl e) \<Rightarrow> (evs, Inl e)
      | (evs, Inr x) \<Rightarrow> (case f x of (evs', r) \<Rightarrow> (evs @ evs', r)))"

text \<open>\<open>try { m } catch (error) { handler error }\<close>.\<close>

definition tryCatch :: "'a io \<Rightarrow> (err \<Rightarrow> 'a io) \<Rightarrow> 'a io" where
  "tryCatch m handler =
     (case m of
        (evs, Inl e) \<Rightarrow> (case handler e of (evs', r) \<Rightarrow> (evs @ evs', r))
      | (evs, Inr x) \<Rightarrow> (evs, Inr x))"

text \<open>
  \<open>try { m } finally { fin }\<close>: the finally block runs after \<open>m\<close> whatever its outcome;
  the outcome of \<open>m\<close> stands unless the finally block throws.
\<close>

definition tryFinally :: "'a io \<Rightarrow> unit io \<Rightarrow> 'a io" where
  "tryFinally m fin =
     (case m of (evs, r) \<Rightarrow>
        (case fin of
           (evs', Inl e) \<Rightarrow> (evs @ evs', Inl e)
         | (evs', Inr u) \<Rightarrow> (evs @ evs', r)))"

definition consoleError :: "string \<Rightarrow> unit io" where
  "consoleError msg = ([ConsoleError msg], Inr ())"

fun forEachIO :: "('s \<Rightarrow> 'a \<Rightarrow> 's io) \<Rightarrow> 'a list \<Rightarrow> 's \<Rightarrow> 's io" where
  "forEachIO f [] s = returnIO s"
| "forEachIO f (x # xs) s = bindIO (f s x) (forEachIO f xs)"

section \<open>The analytical store: \<open>FinancialsDataManager\<close>\<close>

record manager =
  dataset :: string
  table :: string
  tempTable :: string

definition quarterlyTableId :: string where
  "quarterlyTableId = ''quarterly''"

definition annualTableId :: string where
  "annualTableId = ''annual''"

definition datasetId :: string where
  "datasetId = ''financials''"

text \<open>The constructor: it throws when the credentials cannot be set up.\<close>

definition newManager :: "world \<Rightarrow> string \<Rightarrow> manager io" where
  "newManager w tbl =
     (case bqCredentials w of
        Inl e \<Rightarrow> throwIO e
      | Inr u \<Rightarrow>
          returnIO \<lparr>dataset = datasetId, table = tbl,
                    tempTable = tbl @ ''_temp_'' @ showNat (dateNow w)\<rparr>)"

definition createTable :: "world \<Rightarrow> string \<Rightarrow> schemaField list \<Rightarrow> unit io" where
  "createTable w tableName schema =
     tryCatch (call (CreateTable tableName schema) (bqCreateTable w tableName schema))
       (\<lambda>error. bindIO (consoleError ''Error creating table'') (\<lambda>u. throwIO error))"

text \<open>
  \<open>createQuarterlyTable\<close> and \<open>createAnnualTable\<close>, which differ in the table only: a new
  manager, \<open>createTableIfNotExists(schema)\<close>, \<open>createTempTable(schema)\<close>.
\<close>

definition createTables :: "world \<Rightarrow> string \<Rightarrow> schemaField list \<Rightarrow> manager io" where
  "createTables w tbl schema =
     bindIO (newManager w tbl) (\<lambda>instance.
     bindIO (createTable w (table instance) schema) (\<lambda>u.
     bindIO (createTable w (tempTable instance) schema) (\<lambda>u.
     returnIO instance)))"

definition createQuarterlyTable :: "world \<Rightarrow> schemaField list \<Rightarrow> manager io" where
  "createQuarterlyTable w schema = createTables w quarterlyTableId schema"

definition createAnnualTable :: "world \<Rightarrow> schemaField list \<Rightarrow> manager io" where
  "createAnnualTable w schema = createTables w annualTableId schema"

text \<open>
  \<open>filterNumericFields\<close>: \<open>ticker\<close>, \<open>symbol\<close> and \<open>date\<close> are copied; any other entry is
  written as \<open>Number(value)\<close> when \<open>typeof value === "number" || !isNaN(Number(value))\<close>.
  \<open>numericEntry\<close> is the callback of \<open>Object.entries(data).forEach\<close>, with the object
  \<open>filtered\<close> it writes to as its state.
\<close>

definition numericEntry :: "props \<Rightarrow> string \<times> jsval \<Rightarrow> props" where
  "numericEntry filtered e =
     (case e of (key, value) \<Rightarrow>
        if key \<in> set [''ticker'', ''symbol'', ''date''] then setProp filtered key value
        else if typeof value = TNumber \<or> \<not> isNaN (toNumber value)
        then setProp filtered key (JNum (toNumber value))
        else filtered)"

definition filterNumericFields :: "props \<Rightarrow> props" where
  "filterNumericFields data = foldl numericEntry [] data"

text \<open>
  The row of one record in \<open>insertFinancialsToTempTable\<close>:
  \<open>{...this.filterNumericFields(item), date: BigQuery.timestamp(moment(item.date).format(...))}\<close>.
  The text of the timestamp is written in the time zone of the machine; the model keeps
  the value that is formatted.
\<close>

definition tempTableRow :: "props \<Rightarrow> props" where
  "tempTableRow item =
     setProp (spread [] (filterNumericFields item)) ''date''
       (JTimestamp (getProp (JObj item) ''date''))"

text \<open>
  The loop \<open>for (let i = 0; i < rows.length; i += batchSize)\<close> with
  \<open>batch = rows.slice(i, i + batchSize)\<close>, as the list of the batches.
\<close>

function slices :: "nat \<Rightarrow> 'a list \<Rightarrow> nat \<Rightarrow> 'a list list" where
  "slices batchSize rows i =
     (if 0 < batchSize \<and> i < length rows
      then take batchSize (drop i rows) # slices batchSize rows (i + batchSize)
      else [])"
  by pat_completeness auto
termination
  by (relation "measure (\<lambda>(batchSize, rows, i). length rows - i)") auto

definition insertFinancialsToTempTable :: "world \<Rightarrow> manager \<Rightarrow> props list \<Rightarrow> unit io" where
  "insertFinancialsToTempTable w mgr financials =
     tryCatch
       (if length financials = 0 then returnIO ()
        else
          (let rows = map tempTableRow financials
           in forEachIO
                (\<lambda>u batch. call (TableInsert (tempTable mgr) batch) (bqInsert w (tempTable mgr) batch))
                (slices 500 rows 0) ()))
       (\<lambda>error.
          bindIO (consoleError ''Error inserting financials to temp table:'') (\<lambda>u. throwIO error))"

text \<open>\<open>parts.join(sep)\<close>.\<close>

fun join :: "string \<Rightarrow> string list \<Rightarrow> string" where
  "join sep [] = []"
| "join sep [x] = x"
| "join sep (x # y # ys) = x @ sep @ join sep (y # ys)"

definition backtick :: string where
  "backtick = [CHR 0x60]"

definition newline :: string where
  "newline = [CHR 0x0A]"

definition sampleQuery :: "manager \<Rightarrow> string" where
  "sampleQuery mgr =
     ''SELECT * FROM '' @ backtick @ dataset mgr @ ''.'' @ tempTable mgr @ backtick @ '' LIMIT 1''"

text \<open>The text of the \<open>MERGE\<close> statement for a list of columns, line by line.\<close>

definition mergeQuery :: "manager \<Rightarrow> string list \<Rightarrow> string" where
  "mergeQuery mgr columns =
     (let columnList = join '', '' columns
      in newline
         @ ''          MERGE '' @ backtick @ dataset mgr @ ''.'' @ table mgr @ backtick @ '' T''
         @ newline
         @ ''          USING '' @ backtick @ dataset mgr @ ''.'' @ tempTable mgr @ backtick @ '' S''
         @ newline
         @ ''          ON T.ticker = S.ticker AND T.date = S.date'' @ newline
         @ ''          WHEN MATCHED THEN'' @ newline
         @ ''            UPDATE SET ''
         @ join '', '' (map (\<lambda>col. ''T.'' @ col @ '' = S.'' @ col) columns) @ newline
         @ ''          WHEN NOT MATCHED THEN'' @ newline
         @ ''            INSERT ('' @ columnList @ '')'' @ newline
         @ ''            VALUES ('' @ join '', '' (map (\<lambda>col. ''S.'' @ col) columns) @ '')''
         @ newline
         @ ''        '')"

definition dropTempTableQuery :: "manager \<Rightarrow> string" where
  "dropTempTableQuery mgr =
     newline @ ''            DROP TABLE IF EXISTS '' @ backtick @ dataset mgr @ ''.''
     @ tempTable mgr @ backtick @ newline @ ''          ''"

text \<open>
  The columns \<open>mergeTempTableToMainTable\<close> computes from the rows the sample query
  returned: \<open>Object.keys(sampleRow[0] || {})\<close>.
\<close>

definition sampleColumns :: "jsval list \<Rightarrow> string list" where
  "sampleColumns sampleRow =
     objectKeys (jsOr (case sampleRow of [] \<Rightarrow> JUndefined | r # rs \<Rightarrow> r) (JObj []))"

definition mergeTempTableToMainTable :: "world \<Rightarrow> manager \<Rightarrow> unit io" where
  "mergeTempTableToMainTable w mgr =
     tryFinally
       (tryCatch
          (bindIO (call (Query (sampleQuery mgr)) (bqQuery w (sampleQuery mgr))) (\<lambda>sampleRow.
             (let columns = sampleColumns sampleRow
              in bindIO (call (Query (mergeQuery mgr columns)) (bqQuery w (mergeQuery mgr columns)))
                   (\<lambda>rows. returnIO ()))))
          (\<lambda>error.
             bindIO (consoleError ''Error merging temp financials into main table:'')
               (\<lambda>u. throwIO error)))
       (tryCatch
          (bindIO (call (Query (dropTempTableQuery mgr)) (bqQuery w (dropTempTableQuery mgr)))
             (\<lambda>rows. returnIO ()))
          (\<lambda>dropError. consoleError ''Error dropping temp table:''))"

section \<open>Dual-sink writer\<close>

text \<open>
  The operations of \<open>bulkWrite\<close>: one \<open>updateOne\<close> per record, with the filter
  \<open>{ticker, date}\<close> (the field \<open>filterBy\<close>), the record as the update, and \<open>upsert\<close>.
\<close>

definition bulkOps :: "props list \<Rightarrow> updateOne list" where
  "bulkOps docs =
     map (\<lambda>doc. \<lparr>filterBy = [(''ticker'', getProp (JObj doc) ''ticker''),
                             (''date'', getProp (JObj doc) ''date'')],
                   update = doc, upsert = True\<rparr>) docs"

text \<open>
  One of the two blocks inside the \<open>try\<close> of \<open>updateDatabaseAndBQ\<close>: the schema, the
  tables, the filtered records, the insert into the temporary table and the merge.
\<close>

definition uploadToBigQuery ::
  "world \<Rightarrow> (world \<Rightarrow> schemaField list \<Rightarrow> manager io) \<Rightarrow> props list \<Rightarrow> unit io" where
  "uploadToBigQuery w createFinancialsTable records =
     (if length records > 0 then
        (let schema = generateBigQuerySchema records
         in bindIO (createFinancialsTable w schema) (\<lambda>bq.
            (let filtered = map (\<lambda>record. filterRecordForBQ record schema) records
             in bindIO (insertFinancialsToTempTable w bq filtered) (\<lambda>u.
                mergeTempTableToMainTable w bq))))
      else returnIO ())"

text \<open>
  \<open>updateDatabaseAndBQ\<close>, in its two parts. First the document store: the two
  \<open>bulkWrite\<close> calls, each made only for a non-empty list, outside any \<open>try\<close>.
\<close>

definition documentWrites :: "world \<Rightarrow> props list \<Rightarrow> props list \<Rightarrow> unit io" where
  "documentWrites w quarterlyRecords annualRecords =
     (let bulkOpsQuarterly = bulkOps quarterlyRecords;
          bulkOpsAnnual = bulkOps annualRecords
      in bindIO
           (if length bulkOpsQuarterly > 0
            then call (BulkWrite ''StockQuarterlyFinancials'' bulkOpsQuarterly)
                   (mongoBulkWrite w ''StockQuarterlyFinancials'' bulkOpsQuarterly)
            else returnIO ()) (\<lambda>u.
           if length bulkOpsAnnual > 0
           then call (BulkWrite ''StockAnnualFinancials'' bulkOpsAnnual)
                  (mongoBulkWrite w ''StockAnnualFinancials'' bulkOpsAnnual)
           else returnIO ()))"

text \<open>Then the analytical store: the body of the \<open>try\<close>.\<close>

definition analyticalWrites :: "world \<Rightarrow> props list \<Rightarrow> props list \<Rightarrow> unit io" where
  "analyticalWrites w quarterlyRecords annualRecords =
     bindIO (uploadToBigQuery w createQuarterlyTable quarterlyRecords) (\<lambda>u.
     uploadToBigQuery w createAnnualTable annualRecords)"

definition updateDatabaseAndBQ :: "world \<Rightarrow> props list \<Rightarrow> props list \<Rightarrow> unit io" where
  "updateDatabaseAndBQ w quarterlyRecords annualRecords =
     bindIO (documentWrites w quarterlyRecords annualRecords) (\<lambda>u.
     tryCatch (analyticalWrites w quarterlyRecords annualRecords)
       (\<lambda>error. consoleError ''Error uploading to BigQuery:''))"

text \<open>The events that are calls to the analytical store.\<close>

fun analyticalEvent :: "event \<Rightarrow> bool" where
  "analyticalEvent (CreateTable t schema) = True"
| "analyticalEvent (TableInsert t rows) = True"
| "analyticalEvent (Query q) = True"
| "analyticalEvent ev = False"

section \<open>Batch orchestrator\<close>

text \<open>\<open>downloadFinancials\<close>, the single-ticker path.\<close>

definition downloadFinancials :: "world \<Rightarrow> string \<Rightarrow> financials io" where
  "downloadFinancials w ticker =
     bindIO ([GetFundamentals ticker], fetchFinancials ticker (getFundamentals w ticker)) (\<lambda>out.
     bindIO (updateDatabaseAndBQ w (quarterly out) (annual out)) (\<lambda>u.
     returnIO out))"

text \<open>
  \<open>processBulkFinancialData\<close>. For one statement the four quarterly periods are merged
  into the quarterly map, then the four yearly periods into the annual map.
\<close>

definition bulkPeriod :: "jsval \<Rightarrow> jsval \<Rightarrow> recmap \<Rightarrow> string \<Rightarrow> err + recmap" where
  "bulkPeriod ticker stmtData m key =
     (if truthy (getProp stmtData key) then mergeEntry ticker m (key, getProp stmtData key)
      else Inr m)"

definition quarterlyKeys :: "string list" where
  "quarterlyKeys =
     [''quarterly_last_0'', ''quarterly_last_1'', ''quarterly_last_2'', ''quarterly_last_3'']"

definition yearlyKeys :: "string list" where
  "yearlyKeys = [''yearly_last_0'', ''yearly_last_1'', ''yearly_last_2'', ''yearly_last_3'']"

definition bulkStatement ::
  "jsval \<Rightarrow> jsval \<Rightarrow> recmap \<times> recmap \<Rightarrow> string \<Rightarrow> err + recmap \<times> recmap" where
  "bulkStatement ticker fundamentals maps statement =
     (case maps of (quarterlyMap, annualMap) \<Rightarrow>
        (let stmtData = getProp (getProp fundamentals ''Financials'') statement
         in if truthy stmtData then
              (case forEachM (bulkPeriod ticker stmtData) quarterlyKeys quarterlyMap of
                 Inl e \<Rightarrow> Inl e
               | Inr quarterlyMap' \<Rightarrow>
                   (case forEachM (bulkPeriod ticker stmtData) yearlyKeys annualMap of
                      Inl e \<Rightarrow> Inl e
                    | Inr annualMap' \<Rightarrow> Inr (quarterlyMap', annualMap')))
            else Inr (quarterlyMap, annualMap)))"

definition financialStatements :: "string list" where
  "financialStatements = [''Balance_Sheet'', ''Cash_Flow'', ''Income_Statement'']"

definition processBulkFinancialData :: "jsval \<Rightarrow> jsval \<Rightarrow> err + financials" where
  "processBulkFinancialData ticker fundamentals =
     (if \<not> truthy (getProp fundamentals ''Financials'')
         \<or> length (objectKeys (getProp fundamentals ''Financials'')) = 0
      then Inl NoFinancialsError
      else
        (case forEachM (bulkStatement ticker fundamentals) financialStatements ([], []) of
           Inl e \<Rightarrow> Inl e
         | Inr (quarterlyMap, annualMap) \<Rightarrow>
             Inr \<lparr>quarterly = map snd quarterlyMap, annual = map snd annualMap\<rparr>))"

text \<open>
  The body of \<open>for (const fundamentals of bulkData)\<close>: the state is the pair of
  \<open>batchQuarterly\<close> and \<open>batchAnnual\<close>. Reading \<open>fundamentals.General\<close> throws when the
  element is \<open>null\<close> or \<open>undefined\<close>; an exception of \<open>processBulkFinancialData\<close> is caught
  and reported.
\<close>

definition bulkTicker ::
  "props list \<times> props list \<Rightarrow> jsval \<Rightarrow> (props list \<times> props list) io" where
  "bulkTicker batches fundamentals =
     (case batches of (batchQuarterly, batchAnnual) \<Rightarrow>
        bindIO ([], getPropStrict fundamentals ''General'') (\<lambda>general.
          (let ticker = getProp general ''Code''
           in if \<not> truthy ticker then returnIO (batchQuarterly, batchAnnual)
              else if truthy (getProp fundamentals ''ETF_Data'')
              then returnIO (batchQuarterly, batchAnnual)
              else if \<not> truthy (getProp fundamentals ''Financials'')
                      \<or> length (objectKeys (getProp fundamentals ''Financials'')) = 0
              then returnIO (batchQuarterly, batchAnnual)
              else
                (case processBulkFinancialData ticker fundamentals of
                   Inr out \<Rightarrow>
                     returnIO (batchQuarterly @ quarterly out, batchAnnual @ annual out)
                 | Inl error \<Rightarrow>
                     bindIO (consoleError ''Error processing'') (\<lambda>u.
                     returnIO (batchQuarterly, batchAnnual))))))"

definition batchSize :: nat where
  "batchSize = 500"

text \<open>
  The body of the loop of \<open>downloadFinancialsForTickerList\<close> for the batch that starts at
  index \<open>i\<close>. Everything is inside one \<open>try\<close>, whose \<open>catch\<close> reports and goes on.
\<close>

definition processBatch :: "world \<Rightarrow> string list \<Rightarrow> nat \<Rightarrow> unit io" where
  "processBatch w tickers i =
     (let totalBatches = (length tickers + batchSize - 1) div batchSize;
          currentBatch = i div batchSize + 1;
          batch = take batchSize (drop i tickers)
      in tryCatch
           (bindIO (call (GetBulkFundamentals batch) (getBulkFundamentals w batch)) (\<lambda>bulkData.
            bindIO (forEachIO bulkTicker bulkData ([], [])) (\<lambda>batches.
              case batches of (batchQuarterly, batchAnnual) \<Rightarrow>
                bindIO
                  (if length batchQuarterly > 0 \<or> length batchAnnual > 0
                   then updateDatabaseAndBQ w batchQuarterly batchAnnual
                   else returnIO ()) (\<lambda>u.
                if currentBatch < totalBatches then call (Timeout 1000) (Inr ())
                else returnIO ()))))
           (\<lambda>error. consoleError ''Error fetching bulk fundamentals for batch''))"

function batchLoop :: "world \<Rightarrow> string list \<Rightarrow> nat \<Rightarrow> unit io" where
  "batchLoop w tickers i =
     (if i < length tickers
      then bindIO (processBatch w tickers i) (\<lambda>u. batchLoop w tickers (i + batchSize))
      else returnIO ())"
  by pat_completeness auto
termination
  by (relation "measure (\<lambda>(w, tickers, i). length tickers - i)") (auto simp: batchSize_def)

definition downloadFinancialsForTickerList :: "world \<Rightarrow> string list \<Rightarrow> unit io" where
  "downloadFinancialsForTickerList w tickers = batchLoop w tickers 0"

section \<open>Notions for stating the merge\<close>








text \<open>
  The events of the orchestrator itself: the bulk calls to the provider and the delays.
  \<open>quiet\<close> says that a computation causes none of them; \<open>fetchedBatch\<close> reads the
  batch of a bulk call.
\<close>

fun orchestratorEvent :: "event \<Rightarrow> bool" where
  "orchestratorEvent (GetBulkFundamentals batch) = True"
| "orchestratorEvent (Timeout ms) = True"
| "orchestratorEvent ev = False"

definition quiet :: "'a io \<Rightarrow> bool" where
  "quiet m \<longleftrightarrow> filter orchestratorEvent (fst m) = []"

fun fetchedBatch :: "event \<Rightarrow> string list option" where
  "fetchedBatch (GetBulkFundamentals batch) = Some batch"
| "fetchedBatch ev = None"

text \<open>
  A chunk goes through: the bulk call answers, the loop over the answer does not throw,
  and the write of the records, when there are any, does not throw.
\<close>

definition chunkCompletes :: "world \<Rightarrow> string list \<Rightarrow> bool" where
  "chunkCompletes w batch =
     (case getBulkFundamentals w batch of
        Inl e \<Rightarrow> False
      | Inr bulkData \<Rightarrow>
          (case snd (forEachIO bulkTicker bulkData ([], [])) of
             Inl e \<Rightarrow> False
           | Inr (batchQuarterly, batchAnnual) \<Rightarrow>
               (batchQuarterly = [] \<and> batchAnnual = [])
               \<or> snd (updateDatabaseAndBQ w batchQuarterly batchAnnual) = Inr ()))"

text \<open>A list with a separator between consecutive elements.\<close>

fun intersperse :: "'a \<Rightarrow> 'a list \<Rightarrow> 'a list" where
  "intersperse sep [] = []"
| "intersperse sep [x] = [x]"
| "intersperse sep (x # y # ys) = x # sep # intersperse sep (y # ys)"

section \<open>Example worlds and records\<close>

text \<open>
  Concrete inputs for the examples below: a record with one numeric field, a manager, and
  worlds in which one service fails.
\<close>

definition exampleRecord :: props where
  "exampleRecord =
     [(''ticker'', JStr ''A''), (''symbol'', JStr ''A''), (''date'', JDate (Instant 0)),
      (''revenue'', JNum (Fin 100))]"


text \<open>Every service answers; the provider has no data and the tables have no rows.\<close>

definition quietWorld :: world where
  "quietWorld =
     \<lparr>getFundamentals = (\<lambda>ticker. Inr JNull),
      getBulkFundamentals = (\<lambda>batch. Inr []),
      mongoBulkWrite = (\<lambda>collection ops. Inr ()),
      bqCredentials = Inr (),
      dateNow = 17,
      bqCreateTable = (\<lambda>tableName schema. Inr ()),
      bqInsert = (\<lambda>tableName rows. Inr ()),
      bqQuery = (\<lambda>q. Inr [])\<rparr>"

text \<open>The document store rejects every write.\<close>

definition mongoDownWorld :: world where
  "mongoDownWorld =
     quietWorld\<lparr>mongoBulkWrite := (\<lambda>collection ops. Inl (JsError ''document store down''))\<rparr>"

text \<open>The analytical store cannot create a table.\<close>

definition bigQueryDownWorld :: world where
  "bigQueryDownWorld =
     quietWorld\<lparr>bqCreateTable := (\<lambda>tableName schema. Inl (JsError ''analytical store down''))\<rparr>"


text \<open>The provider's bulk call fails.\<close>

definition providerDownWorld :: world where
  "providerDownWorld =
     quietWorld\<lparr>getBulkFundamentals := (\<lambda>batch. Inl (JsError ''provider down''))\<rparr>"

text \<open>
  Payloads: an exchange-traded fund, which has the \<open>ETF_Data\<close> section and an empty
  \<open>Financials\<close> section, and a company in the bulk format with one quarterly balance
  sheet that has a filing date.
\<close>

definition etfPayload :: jsval where
  "etfPayload =
     JObj [(''General'', JObj [(''Code'', JStr ''SPY'')]),
           (''ETF_Data'', JObj [(''Holdings'', JObj [])]),
           (''Financials'', JObj [])]"

definition bulkPayload :: jsval where
  "bulkPayload =
     JObj [(''General'', JObj [(''Code'', JStr ''A'')]),
           (''Financials'',
            JObj [(''Balance_Sheet'',
                   JObj [(''quarterly_last_0'',
                          JObj [(''date'', JStr ''2023-06-30''),
                                (''filing_date'', JStr ''2023-07-27''),
                                (''totalAssets'', JStr ''1'')])])])]"

definition etfWorld :: world where
  "etfWorld = quietWorld\<lparr>getFundamentals := (\<lambda>ticker. Inr etfPayload)\<rparr>"






text \<open>
  A bulk payload with two quarterly balance sheets: the first has a filing date, the
  second has none, so that only its period name \<open>quarterly_last_1\<close> is left to date it.
\<close>

definition undatedBulkPayload :: jsval where
  "undatedBulkPayload =
     JObj [(''General'', JObj [(''Code'', JStr ''A'')]),
           (''Financials'',
            JObj [(''Balance_Sheet'',
                   JObj [(''quarterly_last_0'',
                          JObj [(''date'', JStr ''2023-06-30''),
                                (''filing_date'', JStr ''2023-07-27''),
                                (''totalAssets'', JStr ''1'')]),
                         (''quarterly_last_1'',
                          JObj [(''date'', JStr ''2023-03-31''),
                                (''filing_date'', JNull),
                                (''totalAssets'', JStr ''2'')])])])]"

declare showNat.simps [simp del]
declare slices.simps [simp del]
declare batchLoop.simps [simp del]

section \<open>Properties of schema inference\<close>

lemma set_setAdd: "set (setAdd s k) = insert k (set s)"
  by (auto simp: setAdd_def)

lemma distinct_setAdd: "distinct s \<Longrightarrow> distinct (setAdd s k)"
  by (auto simp: setAdd_def)

lemma set_scanEntry:
  "set (scanEntry s e) =
     set s \<union> (if fst e \<notin> {''ticker'', ''symbol'', ''date''} \<and> typeof (snd e) = TNumber
              then {fst e} else {})"
  by (cases e) (auto simp: scanEntry_def set_setAdd)

lemma distinct_scanEntry: "distinct s \<Longrightarrow> distinct (scanEntry s e)"
  by (cases e) (auto simp: scanEntry_def distinct_setAdd)

lemma set_scanItem:
  "set (scanItem s item) =
     set s \<union> {f. f \<notin> {''ticker'', ''symbol'', ''date''}
                 \<and> (\<exists>e \<in> set item. fst e = f \<and> typeof (snd e) = TNumber)}"
  unfolding scanItem_def
  by (induction item arbitrary: s) (auto simp: set_scanEntry)

lemma distinct_scanItem: "distinct s \<Longrightarrow> distinct (scanItem s item)"
  unfolding scanItem_def
  by (induction item arbitrary: s) (auto simp: distinct_scanEntry)

lemma set_scanItems:
  "set (foldl scanItem s data) =
     set s \<union> {f. f \<notin> {''ticker'', ''symbol'', ''date''} \<and> observedNumeric data f}"
  by (induction data arbitrary: s) (auto simp: set_scanItem observedNumeric_def list_ex_iff)

lemma distinct_scanItems: "distinct s \<Longrightarrow> distinct (foldl scanItem s data)"
  by (induction data arbitrary: s) (auto simp: distinct_scanItem)

lemma filter_name_map_distinct:
  "distinct xs \<Longrightarrow>
     filter (\<lambda>e. name e = f) (map (\<lambda>field. \<lparr>name = field, type = t\<rparr>) xs) =
       (if f \<in> set xs then [\<lparr>name = f, type = t\<rparr>] else [])"
  by (induction xs) auto

text \<open>
  Claim C3. For every batch of records (the empty one included), the entries of the
  inferred schema under a field name \<open>f\<close> are: the one entry \<open>ticker:STRING\<close>,
  \<open>symbol:STRING\<close> or \<open>date:TIMESTAMP\<close> when \<open>f\<close> is an identity field; exactly one entry
  \<open>f:FLOAT64\<close> when \<open>f\<close> is another field whose value is a native number in at least one
  record of the batch; and none otherwise. Since every entry has a name, the schema holds
  nothing else: a field that is a number in one record and a string in another appears
  once, and a field that is never a native number does not appear.
\<close>

theorem generateBigQuerySchema_entries:
  "filter (\<lambda>e. name e = f) (generateBigQuerySchema data) =
     (if f = ''ticker'' then [\<lparr>name = ''ticker'', type = ''STRING''\<rparr>]
      else if f = ''symbol'' then [\<lparr>name = ''symbol'', type = ''STRING''\<rparr>]
      else if f = ''date'' then [\<lparr>name = ''date'', type = ''TIMESTAMP''\<rparr>]
      else if observedNumeric data f then [\<lparr>name = f, type = ''FLOAT64''\<rparr>]
      else [])"
  by (simp add: generateBigQuerySchema_def requiredFields_def filter_name_map_distinct
      distinct_scanItems set_scanItems)

text \<open>
  The batch of the specification: \<open>revenue\<close> is 100 in the first record and the string
  \<open>n/a\<close> in the second, and the schema has \<open>revenue:FLOAT64\<close> once.
\<close>

theorem generateBigQuerySchema_entries_witness:
  "filter (\<lambda>e. name e = ''revenue'')
     (generateBigQuerySchema
        [[(''ticker'', JStr ''A''), (''symbol'', JStr ''A''), (''date'', JDate (Instant 0)),
          (''revenue'', JNum (Fin 100))],
         [(''ticker'', JStr ''A''), (''symbol'', JStr ''A''), (''date'', JDate (Instant 1)),
          (''revenue'', JStr ''n/a'')]])
   = [\<lparr>name = ''revenue'', type = ''FLOAT64''\<rparr>]"
  using generateBigQuerySchema_entries [of "''revenue''"
      "[[(''ticker'', JStr ''A''), (''symbol'', JStr ''A''), (''date'', JDate (Instant 0)),
          (''revenue'', JNum (Fin 100))],
         [(''ticker'', JStr ''A''), (''symbol'', JStr ''A''), (''date'', JDate (Instant 1)),
          (''revenue'', JStr ''n/a'')]]"]
  by (simp add: observedNumeric_def)

section \<open>Properties of the write-time numeric filter\<close>

lemma map_of_numericEntry:
  "map_of (numericEntry acc (k0, v0)) k =
     (if k = k0 then
        (if k0 \<in> {''ticker'', ''symbol'', ''date''} then Some v0
         else if typeof v0 = TNumber \<or> toNumber v0 \<noteq> NaN then Some (JNum (toNumber v0))
         else map_of acc k)
      else map_of acc k)"
  by (simp add: numericEntry_def setProp_def update_conv' isNaN_def)

lemma map_of_foldl_numericEntry:
  "distinct (map fst data) \<Longrightarrow>
   map_of (foldl numericEntry acc data) k =
     (case map_of data k of
        None \<Rightarrow> map_of acc k
      | Some v \<Rightarrow>
          if k \<in> {''ticker'', ''symbol'', ''date''} then Some v
          else if typeof v = TNumber \<or> toNumber v \<noteq> NaN then Some (JNum (toNumber v))
          else map_of acc k)"
proof (induction data arbitrary: acc)
  case Nil
  then show ?case by simp
next
  case (Cons e data)
  obtain k0 v0 where e: "e = (k0, v0)" by (cases e)
  from Cons.prems e have notin: "map_of data k0 = None" and d: "distinct (map fst data)"
    by (auto simp: map_of_eq_None_iff)
  show ?case
  proof (cases "k = k0")
    case True
    have "map_of (foldl numericEntry (numericEntry acc (k0, v0)) data) k0
          = map_of (numericEntry acc (k0, v0)) k0"
      using Cons.IH [OF d, of "numericEntry acc (k0, v0)"] notin True by simp
    then show ?thesis
      using True e by (simp add: map_of_numericEntry)
  next
    case False
    then show ?thesis
      using Cons.IH [OF d, of "numericEntry acc (k0, v0)"] e
      by (simp add: map_of_numericEntry split: option.splits)
  qed
qed

lemma stringToNumber_examples:
  "stringToNumber '''' = Fin 0"
  "stringToNumber ''12.5'' = Fin (25 / 2)"
  "stringToNumber ''411976000000.00'' = Fin 411976000000"
  "stringToNumber ''USD'' = NaN"
  by (simp_all add: stringToNumber_def trimString_def isStrWhiteSpace_def
      readUnsignedDecimal_def readExponent_def isDigit_def readNat_def digitVal_def Let_def)

text \<open>
  Claim C10. For a record (an object, whose property names are distinct) and any field
  name \<open>k\<close>: the filtered record has \<open>k\<close> only if the record has it; an identity field
  keeps its value; any other field is kept exactly when its value is a native number or
  \<open>Number(value)\<close> is not \<open>NaN\<close>, and then holds \<open>Number(value)\<close>. In particular
  \<open>Number(null)\<close> and \<open>Number("")\<close> are 0 and the numeric string \<open>12.5\<close> becomes the
  number 12.5, so such fields pass the filter, although schema inference does not count
  them as numeric (\<open>observedNumeric\<close> is false on a batch that holds the field only with
  these values).
\<close>

theorem filterNumericFields_admits:
  assumes "distinct (map fst data)"
  shows "map_of (filterNumericFields data) k =
           (case map_of data k of
              None \<Rightarrow> None
            | Some v \<Rightarrow>
                if k \<in> {''ticker'', ''symbol'', ''date''} then Some v
                else if typeof v = TNumber \<or> \<not> isNaN (toNumber v)
                then Some (JNum (toNumber v))
                else None)
         \<and> toNumber JNull = Fin 0
         \<and> toNumber (JStr '''') = Fin 0
         \<and> toNumber (JStr ''12.5'') = Fin (25 / 2)
         \<and> \<not> observedNumeric [[(k, JNull)], [(k, JStr '''')], [(k, JStr ''12.5'')]] k"
  using assms
  by (simp add: filterNumericFields_def map_of_foldl_numericEntry stringToNumber_examples
      isNaN_def observedNumeric_def split: option.splits)

text \<open>
  A record with a null, an empty string, a numeric string, a currency code and a number:
  the first three are stored as the numbers 0, 0 and 12.5, the currency code is dropped.
\<close>

theorem filterNumericFields_admits_witness:
  "distinct (map fst [(''ticker'', JStr ''A''), (''symbol'', JStr ''A''),
       (''date'', JDate (Instant 0)), (''a'', JNull), (''b'', JStr ''''), (''c'', JStr ''12.5''),
       (''d'', JStr ''USD''), (''e'', JNum (Fin 2))])
   \<and> filterNumericFields [(''ticker'', JStr ''A''), (''symbol'', JStr ''A''),
       (''date'', JDate (Instant 0)), (''a'', JNull), (''b'', JStr ''''), (''c'', JStr ''12.5''),
       (''d'', JStr ''USD''), (''e'', JNum (Fin 2))]
     = [(''ticker'', JStr ''A''), (''symbol'', JStr ''A''), (''date'', JDate (Instant 0)),
        (''a'', JNum (Fin 0)), (''b'', JNum (Fin 0)), (''c'', JNum (Fin (25 / 2))),
        (''e'', JNum (Fin 2))]
   \<and> map_of (filterNumericFields [(''ticker'', JStr ''A''), (''symbol'', JStr ''A''),
       (''date'', JDate (Instant 0)), (''a'', JNull), (''b'', JStr ''''), (''c'', JStr ''12.5''),
       (''d'', JStr ''USD''), (''e'', JNum (Fin 2))]) ''a'' = Some (JNum (Fin 0))"
  using filterNumericFields_admits [of "[(''ticker'', JStr ''A''), (''symbol'', JStr ''A''),
       (''date'', JDate (Instant 0)), (''a'', JNull), (''b'', JStr ''''), (''c'', JStr ''12.5''),
       (''d'', JStr ''USD''), (''e'', JNum (Fin 2))]" "''a''"]
  by (simp add: filterNumericFields_def numericEntry_def setProp_def isNaN_def
      stringToNumber_examples)

section \<open>Properties of the dual-sink writer\<close>

lemmas io_defs = bindIO_def tryCatch_def tryFinally_def call_def returnIO_def throwIO_def
  consoleError_def

lemma fst_bindIO:
  "fst (bindIO m f) = fst m @ (case snd m of Inl e \<Rightarrow> [] | Inr x \<Rightarrow> fst (f x))"
  by (cases m) (simp add: bindIO_def split: sum.splits prod.splits)

lemma fst_tryCatch:
  "fst (tryCatch m h) = fst m @ (case snd m of Inl e \<Rightarrow> fst (h e) | Inr x \<Rightarrow> [])"
  by (cases m) (simp add: tryCatch_def split: sum.splits prod.splits)








lemma documentWrites_events:
  "filter analyticalEvent (fst (documentWrites w q a)) = []"
  by (simp add: documentWrites_def io_defs Let_def split: sum.splits prod.splits)

lemma createTables_starts:
  "bqCredentials w = Inr () \<Longrightarrow>
   \<exists>rest. fst (createTables w tbl schema) = CreateTable tbl schema # rest"
  by (simp add: createTables_def newManager_def createTable_def fst_bindIO fst_tryCatch
      returnIO_def call_def)

lemma analyticalWrites_starts:
  assumes "bqCredentials w = Inr ()" and "q \<noteq> []"
  shows "\<exists>rest. fst (analyticalWrites w q a) =
           CreateTable quarterlyTableId (generateBigQuerySchema q) # rest"
proof -
  obtain rest where "fst (createTables w quarterlyTableId (generateBigQuerySchema q)) =
      CreateTable quarterlyTableId (generateBigQuerySchema q) # rest"
    using createTables_starts [OF assms(1)] by blast
  then show ?thesis
    using assms(2)
    by (simp add: analyticalWrites_def uploadToBigQuery_def createQuarterlyTable_def fst_bindIO
        Let_def)
qed

text \<open>
  Claim C7 as stated fails: in a world where the document store rejects the write, a call
  with one quarterly record throws the error of the document store and makes no call to
  the analytical store, although the analytical path, had it been run, would have started
  with the creation of the table.
\<close>

theorem updateDatabaseAndBQ_document_failure:
  "snd (updateDatabaseAndBQ mongoDownWorld [exampleRecord] []) =
     Inl (JsError ''document store down'')
   \<and> filter analyticalEvent (fst (updateDatabaseAndBQ mongoDownWorld [exampleRecord] [])) = []
   \<and> hd (fst (analyticalWrites mongoDownWorld [exampleRecord] [])) =
       CreateTable quarterlyTableId (generateBigQuerySchema [exampleRecord])"
proof -
  have "bqCredentials mongoDownWorld = Inr ()"
    by (simp add: mongoDownWorld_def quietWorld_def)
  from analyticalWrites_starts [OF this, of "[exampleRecord]" "[]"]
  have "hd (fst (analyticalWrites mongoDownWorld [exampleRecord] [])) =
          CreateTable quarterlyTableId (generateBigQuerySchema [exampleRecord])"
    by auto
  moreover have "snd (updateDatabaseAndBQ mongoDownWorld [exampleRecord] []) =
       Inl (JsError ''document store down'')
     \<and> filter analyticalEvent (fst (updateDatabaseAndBQ mongoDownWorld [exampleRecord] [])) = []"
    by (simp add: updateDatabaseAndBQ_def documentWrites_def io_defs mongoDownWorld_def
        quietWorld_def bulkOps_def Let_def)
  ultimately show ?thesis by simp
qed

text \<open>
  Claim C7, amended. The document-store writes come first and are not guarded. What
  \<open>updateDatabaseAndBQ\<close> throws is what they throw, and nothing else: a failure of the
  analytical path never reaches the caller. When a document-store write fails, the trace
  is that of the document-store writes alone, which holds no call to the analytical
  store. When they succeed, the analytical path is run after them (with valid credentials
  and a quarterly record, its first call is the creation of the quarterly table), and a
  failure in it adds one line on the console; the events of the document store stay as
  they were.
\<close>

theorem updateDatabaseAndBQ_paths:
  "snd (updateDatabaseAndBQ w q a) = snd (documentWrites w q a)
   \<and> fst (updateDatabaseAndBQ w q a) =
       (case snd (documentWrites w q a) of
          Inl e \<Rightarrow> fst (documentWrites w q a)
        | Inr u \<Rightarrow>
            fst (documentWrites w q a) @ fst (analyticalWrites w q a)
            @ (case snd (analyticalWrites w q a) of
                 Inl e \<Rightarrow> [ConsoleError ''Error uploading to BigQuery:'']
               | Inr u \<Rightarrow> []))
   \<and> filter analyticalEvent (fst (documentWrites w q a)) = []
   \<and> (bqCredentials w = Inr () \<and> q \<noteq> [] \<longrightarrow>
        hd (fst (analyticalWrites w q a)) =
          CreateTable quarterlyTableId (generateBigQuerySchema q))"
proof -
  have "bqCredentials w = Inr () \<and> q \<noteq> [] \<longrightarrow>
        hd (fst (analyticalWrites w q a)) =
          CreateTable quarterlyTableId (generateBigQuerySchema q)"
    using analyticalWrites_starts [of w q a] by auto
  then show ?thesis
    using documentWrites_events [of w q a]
    by (cases "documentWrites w q a"; cases "analyticalWrites w q a")
       (simp add: updateDatabaseAndBQ_def io_defs split: sum.splits)
qed

text \<open>
  In the world where the analytical store cannot create a table, the record is written
  to the document store, the failure is reported twice on the console (by \<open>createTable\<close>
  and by \<open>updateDatabaseAndBQ\<close>), and the call returns normally.
\<close>

theorem updateDatabaseAndBQ_paths_witness:
  "bqCredentials bigQueryDownWorld = Inr () \<and> [exampleRecord] \<noteq> []
   \<and> updateDatabaseAndBQ bigQueryDownWorld [exampleRecord] [] =
       ([BulkWrite ''StockQuarterlyFinancials''
           [\<lparr>filterBy = [(''ticker'', JStr ''A''), (''date'', JDate (Instant 0))],
             update = exampleRecord, upsert = True\<rparr>],
         CreateTable ''quarterly''
           [\<lparr>name = ''ticker'', type = ''STRING''\<rparr>, \<lparr>name = ''symbol'', type = ''STRING''\<rparr>,
            \<lparr>name = ''date'', type = ''TIMESTAMP''\<rparr>, \<lparr>name = ''revenue'', type = ''FLOAT64''\<rparr>],
         ConsoleError ''Error creating table'',
         ConsoleError ''Error uploading to BigQuery:''],
        Inr ())"
  using updateDatabaseAndBQ_paths [of bigQueryDownWorld "[exampleRecord]" "[]"]
  by (simp add: prod_eq_iff documentWrites_def analyticalWrites_def uploadToBigQuery_def
      createQuarterlyTable_def createTables_def newManager_def createTable_def io_defs
      bigQueryDownWorld_def quietWorld_def exampleRecord_def bulkOps_def Let_def
      generateBigQuerySchema_def requiredFields_def scanItem_def scanEntry_def setAdd_def
      quarterlyTableId_def datasetId_def)

section \<open>Errors of the normalizer and their propagation\<close>

lemma date_of_processFinancialData:
  "getProp (JObj (processFinancialData ticker dictKey details)) ''date'' =
     JDate (getClose (jsOr (getProp details ''filing_date'') (JStr dictKey)))"
  by (simp add: processFinancialData_def setProp_def update_conv')

lemma map_of_date_processFinancialData:
  "map_of (processFinancialData ticker dictKey details) ''date'' =
     Some (JDate (getClose (jsOr (getProp details ''filing_date'') (JStr dictKey))))"
  by (simp add: processFinancialData_def setProp_def update_conv')

lemma toISOString_error: "toISOString dt = Inl e \<Longrightarrow> e = RangeError"
  by (cases dt) (auto simp: toISOString_def Let_def split: prod.splits)

lemma mergeEntry_error: "mergeEntry ticker m e = Inl x \<Longrightarrow> x = RangeError"
  by (cases e)
     (auto simp: mergeEntry_def map_of_date_processFinancialData callToISOString_def Let_def
       dest: toISOString_error split: sum.splits)

lemma forEachM_error:
  assumes "\<And>s x e. f s x = Inl e \<Longrightarrow> P e"
  shows "forEachM f xs s = Inl e \<Longrightarrow> P e"
  by (induction xs arbitrary: s) (auto split: sum.splits dest: assms)

lemma mergeStatements_error: "mergeStatements ticker stmts = Inl x \<Longrightarrow> x = RangeError"
  unfolding mergeStatements_def
proof (rule forEachM_error [where P = "\<lambda>x. x = RangeError"])
  fix s st e
  assume "mergeStatement ticker s st = Inl e"
  then show "e = RangeError"
    by (auto simp: mergeStatement_def split: if_splits
        intro: forEachM_error [where P = "\<lambda>x. x = RangeError" and f = "mergeEntry ticker"]
        dest: mergeEntry_error)
qed

lemma fetchFinancials_NoFinancialsError:
  "fetchFinancials ticker (Inr fundamentals) = Inl NoFinancialsError \<longleftrightarrow>
     \<not> truthy fundamentals
     \<or> (\<not> truthy (getProp fundamentals ''ETF_Data'')
        \<and> objectKeys (jsOr (getProp fundamentals ''Financials'') (JObj [])) = [])"
  by (auto simp: fetchFinancials_def split: sum.splits dest: mergeStatements_error)

lemma fetchFinancials_EtfError:
  "fetchFinancials ticker (Inr fundamentals) = Inl EtfError \<longleftrightarrow>
     truthy fundamentals \<and> truthy (getProp fundamentals ''ETF_Data'')"
  by (auto simp: fetchFinancials_def split: sum.splits dest: mergeStatements_error)

lemma downloadFinancials_propagates:
  "getFundamentals w ticker = Inr fundamentals \<Longrightarrow>
   fetchFinancials ticker (Inr fundamentals) = Inl e \<Longrightarrow>
   downloadFinancials w ticker = ([GetFundamentals ticker], Inl e)"
  by (simp add: downloadFinancials_def bindIO_def)

lemma financials_empty_iff:
  "(\<not> truthy F \<or> length (objectKeys F) = 0) \<longleftrightarrow> objectKeys (jsOr F (JObj [])) = []"
  by (auto simp: jsOr_def objectKeys_def)

lemma bulkTicker_skips:
  assumes "fundamentals \<noteq> JNull" "fundamentals \<noteq> JUndefined"
    and "truthy (getProp fundamentals ''ETF_Data'')
         \<or> objectKeys (jsOr (getProp fundamentals ''Financials'') (JObj [])) = []"
  shows "bulkTicker batches fundamentals = returnIO batches"
  using assms financials_empty_iff [of "getProp fundamentals ''Financials''"]
  by (cases batches) (auto simp: bulkTicker_def getPropStrict_def bindIO_def returnIO_def Let_def)

lemma bindIO_returnIO: "bindIO (returnIO x) f = f x"
  by (cases "f x") (simp add: bindIO_def returnIO_def)

lemma bindIO_assoc: "bindIO (bindIO m f) g = bindIO m (\<lambda>x. bindIO (f x) g)"
  by (cases m) (auto simp: bindIO_def split: sum.splits prod.splits)

lemma forEachIO_append:
  "forEachIO f (xs @ ys) s = bindIO (forEachIO f xs s) (forEachIO f ys)"
proof (induction xs arbitrary: s)
  case Nil
  then show ?case by (simp add: bindIO_returnIO)
next
  case (Cons x xs)
  have "forEachIO f (xs @ ys) = (\<lambda>s'. bindIO (forEachIO f xs s') (forEachIO f ys))"
    using Cons.IH by (simp add: fun_eq_iff)
  then show ?case by (simp add: bindIO_assoc)
qed

lemma forEachIO_skip:
  "f s x = returnIO s \<Longrightarrow> forEachIO f (x # xs) s = forEachIO f xs s"
  by (simp add: bindIO_returnIO)

text \<open>
  Claim C6 as stated fails. The payload of an exchange-traded fund has the \<open>ETF_Data\<close>
  marker and an empty financials section; \<open>fetchFinancials\<close> throws the ETF error on
  it and not \<open>NoFinancialsError\<close>, because the marker is tested first.
\<close>

theorem fetchFinancials_financials_empty_etf:
  "objectKeys (jsOr (getProp etfPayload ''Financials'') (JObj [])) = []
   \<and> truthy (getProp etfPayload ''ETF_Data'')
   \<and> fetchFinancials ''SPY'' (Inr etfPayload) = Inl EtfError
   \<and> fetchFinancials ''SPY'' (Inr etfPayload) \<noteq> Inl NoFinancialsError"
  by (simp add: etfPayload_def fetchFinancials_def jsOr_def objectKeys_def)

text \<open>
  Claim C6, amended. \<open>fetchFinancials\<close> throws \<open>NoFinancialsError\<close> exactly when the
  payload is empty (falsy), or it has no \<open>ETF_Data\<close> marker and its financials section
  is empty; it throws the ETF error exactly when the payload is not empty and has the
  marker. Any error of \<open>fetchFinancials\<close> reaches the caller of \<open>downloadFinancials\<close>,
  after the fetch and before any write. In the bulk path an element of the response (an
  object: not \<open>null\<close> or \<open>undefined\<close>) that has the marker or an empty financials
  section changes neither the batch nor the trace and throws nothing, so the loop over
  the response gives what it gives without that element: the records of the other
  tickers.
\<close>

theorem fetchFinancials_errors:
  "(fetchFinancials ticker (Inr fundamentals) = Inl NoFinancialsError \<longleftrightarrow>
      \<not> truthy fundamentals
      \<or> (\<not> truthy (getProp fundamentals ''ETF_Data'')
         \<and> objectKeys (jsOr (getProp fundamentals ''Financials'') (JObj [])) = []))
   \<and> (fetchFinancials ticker (Inr fundamentals) = Inl EtfError \<longleftrightarrow>
        truthy fundamentals \<and> truthy (getProp fundamentals ''ETF_Data''))
   \<and> (getFundamentals w ticker = Inr fundamentals
        \<and> fetchFinancials ticker (Inr fundamentals) = Inl e \<longrightarrow>
        downloadFinancials w ticker = ([GetFundamentals ticker], Inl e))
   \<and> (fundamentals \<noteq> JNull \<and> fundamentals \<noteq> JUndefined
        \<and> (truthy (getProp fundamentals ''ETF_Data'')
            \<or> objectKeys (jsOr (getProp fundamentals ''Financials'') (JObj [])) = []) \<longrightarrow>
        bulkTicker batches fundamentals = returnIO batches
        \<and> forEachIO bulkTicker (before @ fundamentals # after) start =
            forEachIO bulkTicker (before @ after) start)"
proof -
  have "forEachIO bulkTicker (before @ fundamentals # after) start =
            forEachIO bulkTicker (before @ after) start"
    if skip: "\<And>s. bulkTicker s fundamentals = returnIO s"
  proof -
    have "forEachIO bulkTicker (fundamentals # after) = forEachIO bulkTicker after"
      using skip by (simp add: fun_eq_iff bindIO_returnIO)
    then show ?thesis by (simp add: forEachIO_append)
  qed
  then show ?thesis
    using fetchFinancials_NoFinancialsError [of ticker fundamentals]
      fetchFinancials_EtfError [of ticker fundamentals]
      downloadFinancials_propagates [of w ticker fundamentals e]
      bulkTicker_skips [of fundamentals]
    by blast
qed

text \<open>
  The fund alone is refused with the ETF error before anything is written; in a bulk
  response it is passed over and the company after it is processed.
\<close>

theorem fetchFinancials_errors_witness:
  "getFundamentals etfWorld ''SPY'' = Inr etfPayload
   \<and> fetchFinancials ''SPY'' (Inr etfPayload) = Inl EtfError
   \<and> downloadFinancials etfWorld ''SPY'' = ([GetFundamentals ''SPY''], Inl EtfError)
   \<and> etfPayload \<noteq> JNull \<and> etfPayload \<noteq> JUndefined
   \<and> truthy (getProp etfPayload ''ETF_Data'')
   \<and> forEachIO bulkTicker ([] @ etfPayload # [bulkPayload]) ([], []) =
       forEachIO bulkTicker ([] @ [bulkPayload]) ([], [])"
proof -
  have a: "getFundamentals etfWorld ''SPY'' = Inr etfPayload"
    by (simp add: etfWorld_def quietWorld_def)
  have b: "fetchFinancials ''SPY'' (Inr etfPayload) = Inl EtfError"
    by (simp add: etfPayload_def fetchFinancials_def)
  have c: "etfPayload \<noteq> JNull \<and> etfPayload \<noteq> JUndefined
           \<and> truthy (getProp etfPayload ''ETF_Data'')"
    by (simp add: etfPayload_def)
  show ?thesis
    using fetchFinancials_errors [of "''SPY''" etfPayload etfWorld EtfError "([], [])" "[]"
        "[bulkPayload]" "([], [])"] a b c
    by blast
qed

section \<open>Properties of the merge of statement fragments\<close>

subsection \<open>The spread of objects\<close>

lemma keys_setProp: "fst ` set (setProp a k v) = insert k (fst ` set a)"
  by (simp add: setProp_def dom_update)

lemma keys_foldl_setProp:
  "fst ` set (foldl (\<lambda>acc (k, v). setProp acc k v) a b) = fst ` set a \<union> fst ` set b"
proof (induction b arbitrary: a)
  case Nil
  then show ?case by simp
next
  case (Cons e b)
  obtain k v where e: "e = (k, v)" by (cases e)
  show ?case
    using Cons.IH [of "setProp a k v"] by (simp add: e keys_setProp)
qed

lemma keys_spread: "fst ` set (spread a b) = fst ` set a \<union> fst ` set b"
  by (simp add: spread_def keys_foldl_setProp)




subsection \<open>The winning value\<close>





subsection \<open>Fragments and their keys\<close>







subsection \<open>The invariant of the merge loop\<close>







subsection \<open>The single-ticker path\<close>






subsection \<open>The bulk path\<close>







section \<open>The canonical date\<close>







section \<open>Entries that cannot be dated\<close>

text \<open>
  Claim C5 does not hold of the code. A bulk entry without a filing date is dated by its
  period name, which is not a date: \<open>getClose\<close> gives an invalid \<open>Date\<close>, and
  \<open>record.date.toISOString()\<close> throws a \<open>RangeError\<close> before \<open>mergeRecord\<close> and its
  guard \<open>if (!key) return\<close> are reached. \<open>processBulkFinancialData\<close> throws, the
  caller reports the error on the console, and the ticker contributes no record at all,
  the record of its dated entry \<open>quarterly_last_0\<close> included.
\<close>

theorem undated_entry_throws:
  "\<not> truthy (getProp (getProp (getProp (getProp undatedBulkPayload ''Financials'')
        ''Balance_Sheet'') ''quarterly_last_1'') ''filing_date'')
   \<and> getClose (JStr ''quarterly_last_1'') = InvalidDate
   \<and> toISOString InvalidDate = Inl RangeError
   \<and> processBulkFinancialData (JStr ''A'') undatedBulkPayload = Inl RangeError
   \<and> bulkTicker ([], []) undatedBulkPayload = ([ConsoleError ''Error processing''], Inr ([], []))"
  by code_simp

text \<open>In short: the ticker is lost with a \<open>RangeError\<close>, and one line is logged.\<close>

theorem undated_entry_throws_witness:
  "processBulkFinancialData (JStr ''A'') undatedBulkPayload = Inl RangeError
   \<and> fst (bulkTicker ([], []) undatedBulkPayload) = [ConsoleError ''Error processing'']"
  using undated_entry_throws by simp

section \<open>Chunks of the ticker list\<close>

text \<open>
  Nothing below the loop of \<open>downloadFinancialsForTickerList\<close> calls the provider's bulk
  endpoint or waits: the normalizer, the writer and the table manager are quiet.
\<close>

lemma quiet_returnIO: "quiet (returnIO x)"
  by (simp add: quiet_def returnIO_def)

lemma quiet_throwIO: "quiet (throwIO e)"
  by (simp add: quiet_def throwIO_def)

lemma quiet_consoleError: "quiet (consoleError msg)"
  by (simp add: quiet_def consoleError_def)

lemma quiet_call: "\<not> orchestratorEvent ev \<Longrightarrow> quiet (call ev outcome)"
  by (simp add: quiet_def call_def)

lemma quiet_pure: "quiet ([], r)"
  by (simp add: quiet_def)

lemma quiet_bindIO: "quiet m \<Longrightarrow> (\<And>x. quiet (f x)) \<Longrightarrow> quiet (bindIO m f)"
  by (auto simp: quiet_def fst_bindIO split: sum.splits)

lemma quiet_tryCatch: "quiet m \<Longrightarrow> (\<And>e. quiet (h e)) \<Longrightarrow> quiet (tryCatch m h)"
  by (auto simp: quiet_def fst_tryCatch split: sum.splits)

lemma quiet_tryFinally: "quiet m \<Longrightarrow> quiet fin \<Longrightarrow> quiet (tryFinally m fin)"
  by (cases m; cases fin) (auto simp: quiet_def tryFinally_def split: sum.splits)

lemma quiet_forEachIO: "(\<And>s x. quiet (f s x)) \<Longrightarrow> quiet (forEachIO f xs s)"
  by (induction xs arbitrary: s) (auto intro: quiet_returnIO quiet_bindIO)

lemma quiet_if: "quiet a \<Longrightarrow> quiet b \<Longrightarrow> quiet (if c then a else b)"
  by simp

lemmas quiet_intros = quiet_returnIO quiet_throwIO quiet_consoleError quiet_call quiet_pure
  quiet_bindIO quiet_tryCatch quiet_tryFinally quiet_forEachIO quiet_if

lemma quiet_createTables: "quiet (createTables w tbl schema)"
  by (auto simp: createTables_def newManager_def createTable_def split: sum.splits
      intro!: quiet_intros)

lemma quiet_insert: "quiet (insertFinancialsToTempTable w mgr financials)"
  by (auto simp: insertFinancialsToTempTable_def Let_def intro!: quiet_intros)

lemma quiet_merge: "quiet (mergeTempTableToMainTable w mgr)"
  by (auto simp: mergeTempTableToMainTable_def Let_def intro!: quiet_intros)

lemma quiet_upload:
  "(\<And>schema. quiet (create w schema)) \<Longrightarrow> quiet (uploadToBigQuery w create records)"
  by (auto simp: uploadToBigQuery_def Let_def intro!: quiet_intros quiet_insert quiet_merge)

lemma quiet_updateDatabaseAndBQ: "quiet (updateDatabaseAndBQ w q a)"
  by (auto simp: updateDatabaseAndBQ_def documentWrites_def analyticalWrites_def
      createQuarterlyTable_def createAnnualTable_def Let_def
      intro!: quiet_intros quiet_upload quiet_createTables)

lemma quiet_bulkTicker: "quiet (bulkTicker batches fundamentals)"
  by (cases batches)
     (auto simp: bulkTicker_def Let_def split: sum.splits intro!: quiet_intros)

text \<open>
  One turn of the loop makes one bulk call, for the slice of the list at its index, and
  one delay when the chunk goes through and is not the last. It never throws.
\<close>

lemma map_filter_app: "List.map_filter f (xs @ ys) = List.map_filter f xs @ List.map_filter f ys"
  by (simp add: List.map_filter_def)

lemma snd_processBatch: "snd (processBatch w tickers i) = Inr ()"
  by (simp add: processBatch_def tryCatch_def consoleError_def Let_def split: prod.splits sum.splits)

lemma filter_fst_bindIO:
  "filter P (fst (bindIO m f)) =
     filter P (fst m) @ (case snd m of Inl e \<Rightarrow> [] | Inr x \<Rightarrow> filter P (fst (f x)))"
  by (simp add: fst_bindIO split: sum.splits)

lemma snd_bindIO:
  "snd (bindIO m f) = (case snd m of Inl e \<Rightarrow> Inl e | Inr x \<Rightarrow> snd (f x))"
  by (cases m) (auto simp: bindIO_def split: sum.splits prod.splits)

lemma processBatch_orchestration:
  "filter orchestratorEvent (fst (processBatch w tickers i)) =
     GetBulkFundamentals (take batchSize (drop i tickers)) #
     (if chunkCompletes w (take batchSize (drop i tickers))
         \<and> i div batchSize + 1 < (length tickers + batchSize - 1) div batchSize
      then [Timeout 1000] else [])"
proof -
  let ?batch = "take batchSize (drop i tickers)"
  have q1: "filter orchestratorEvent (fst (forEachIO bulkTicker bulkData ([], []))) = []"
    for bulkData
    using quiet_forEachIO [of bulkTicker bulkData "([], [])"] quiet_bulkTicker
    by (simp add: quiet_def)
  have q2: "filter orchestratorEvent (fst (updateDatabaseAndBQ w q a)) = []" for q a
    using quiet_updateDatabaseAndBQ [of w q a] by (simp add: quiet_def)
  show ?thesis
    by (auto simp: processBatch_def chunkCompletes_def Let_def fst_tryCatch filter_fst_bindIO
        snd_bindIO q1 q2 call_def returnIO_def consoleError_def
        split: sum.splits prod.splits)
qed

text \<open>
  The bulk calls of the whole loop are the slices of the list, in order; the slices
  concatenate to the list, none is empty or longer than 500, and there are
  \<open>\<lceil>n / 500\<rceil>\<close> of them.
\<close>

lemma fst_batchLoop:
  "fst (batchLoop w tickers i) =
     (if i < length tickers
      then fst (processBatch w tickers i) @ fst (batchLoop w tickers (i + batchSize))
      else [])"
  by (subst batchLoop.simps) (simp add: fst_bindIO snd_processBatch returnIO_def)

lemma slices_unfold:
  "slices b xs i =
     (if 0 < b \<and> i < length xs then take b (drop i xs) # slices b xs (i + b) else [])"
  by (subst slices.simps) simp

lemma fetched_filter:
  "List.map_filter fetchedBatch (filter orchestratorEvent evs) = List.map_filter fetchedBatch evs"
proof (induction evs)
  case Nil
  then show ?case by simp
next
  case (Cons ev evs)
  then show ?case by (cases ev) simp_all
qed

lemma fetched_processBatch:
  "List.map_filter fetchedBatch (fst (processBatch w tickers i)) =
     [take batchSize (drop i tickers)]"
proof -
  have "List.map_filter fetchedBatch (filter orchestratorEvent (fst (processBatch w tickers i)))
        = [take batchSize (drop i tickers)]"
    by (simp add: processBatch_orchestration)
  then show ?thesis by (simp only: fetched_filter)
qed

lemma fetched_batchLoop:
  "List.map_filter fetchedBatch (fst (batchLoop w tickers i)) = slices batchSize tickers i"
proof (induction w tickers i rule: batchLoop.induct)
  case (1 w tickers i)
  show ?case
  proof (cases "i < length tickers")
    case True
    have "List.map_filter fetchedBatch (fst (batchLoop w tickers i)) =
            take batchSize (drop i tickers) #
            List.map_filter fetchedBatch (fst (batchLoop w tickers (i + batchSize)))"
      using True by (subst fst_batchLoop) (simp add: map_filter_app fetched_processBatch)
    also have "\<dots> = take batchSize (drop i tickers) # slices batchSize tickers (i + batchSize)"
      using "1.IH" [OF True] by simp
    also have "\<dots> = slices batchSize tickers i"
      using True by (subst (2) slices_unfold) (simp add: batchSize_def)
    finally show ?thesis .
  next
    case False
    have "fst (batchLoop w tickers i) = []"
      using False by (subst fst_batchLoop) simp
    moreover have "slices batchSize tickers i = []"
      using False by (subst slices_unfold) simp
    ultimately show ?thesis by simp
  qed
qed

lemma concat_slices: "0 < b \<Longrightarrow> concat (slices b xs i) = drop i xs"
proof (induction b xs i rule: slices.induct)
  case (1 b xs i)
  show ?case
  proof (cases "i < length xs")
    case True
    have "take b (drop i xs) @ drop (i + b) xs = drop i xs"
      by (metis add.commute append_take_drop_id drop_drop)
    then show ?thesis
      using 1 True by (subst slices_unfold) simp
  next
    case False
    then show ?thesis by (subst slices_unfold) simp
  qed
qed

lemma slices_bounded:
  "s \<in> set (slices b xs i) \<Longrightarrow> s \<noteq> [] \<and> length s \<le> b"
proof (induction b xs i rule: slices.induct)
  case (1 b xs i)
  from "1.prems" have c: "0 < b \<and> i < length xs"
    by (subst (asm) slices_unfold) (simp split: if_splits)
  from "1.prems" have "s = take b (drop i xs) \<or> s \<in> set (slices b xs (i + b))"
    by (subst (asm) slices_unfold) (simp split: if_splits)
  then show ?case
    using c "1.IH" by auto
qed

lemma ceil_step: "0 < d \<Longrightarrow> (d + 499) div 500 = Suc ((d - 500 + 499) div (500::nat))"
proof (cases "d < 500")
  case True
  assume "0 < d"
  with True have "(d + 499) div 500 = 1" by simp
  moreover from True have "(d - 500 + 499) div 500 = 0" by simp
  ultimately show ?thesis by simp
next
  case False
  then obtain e where "d = e + 500" by (metis le_add_diff_inverse2 not_less)
  then show ?thesis by simp
qed

lemma length_slices:
  "length (slices 500 xs i) = (length xs - i + 499) div 500"
proof (induction "length xs - i" arbitrary: i rule: less_induct)
  case less
  show ?case
  proof (cases "i < length xs")
    case True
    then have "length xs - (i + 500) < length xs - i" by simp
    from less [OF this]
    have IH: "length (slices 500 xs (i + 500)) = (length xs - (i + 500) + 499) div 500" .
    have "length (slices 500 xs i) = Suc (length (slices 500 xs (i + 500)))"
      using True by (subst slices_unfold) simp
    also have "\<dots> = Suc ((length xs - i - 500 + 499) div 500)"
      using IH by (simp only: diff_diff_left)
    also have "\<dots> = (length xs - i + 499) div 500"
      using True ceil_step [of "length xs - i"] by simp
    finally show ?thesis .
  next
    case False
    have "length (slices 500 xs i) = 0"
      using False by (subst slices_unfold) simp
    then show ?thesis using False by simp
  qed
qed

lemma not_last_iff:
  "500 dvd i \<Longrightarrow> i < n \<Longrightarrow> (i div 500 + 1 < (n + 500 - 1) div 500) = (i + 500 < (n::nat))"
  by (elim dvdE) (simp, arith)

lemma paced_batchLoop:
  "batchSize dvd i \<Longrightarrow>
   \<forall>batch \<in> set (slices batchSize tickers i). chunkCompletes w batch \<Longrightarrow>
   filter orchestratorEvent (fst (batchLoop w tickers i)) =
     intersperse (Timeout 1000) (map GetBulkFundamentals (slices batchSize tickers i))"
proof (induction w tickers i rule: batchLoop.induct)
  case (1 w tickers i)
  show ?case
  proof (cases "i < length tickers")
    case False
    have "fst (batchLoop w tickers i) = []"
      using False by (subst fst_batchLoop) simp
    moreover have "slices batchSize tickers i = []"
      using False by (subst slices_unfold) simp
    ultimately show ?thesis by simp
  next
    case True
    have dvd': "batchSize dvd i + batchSize" using "1.prems"(1) by simp
    have sl: "slices batchSize tickers i =
                take batchSize (drop i tickers) # slices batchSize tickers (i + batchSize)"
      using True by (subst slices_unfold) (simp add: batchSize_def)
    have completes: "chunkCompletes w (take batchSize (drop i tickers))"
      and rest: "\<forall>batch \<in> set (slices batchSize tickers (i + batchSize)). chunkCompletes w batch"
      using "1.prems"(2) sl by simp_all
    have IH: "filter orchestratorEvent (fst (batchLoop w tickers (i + batchSize))) =
        intersperse (Timeout 1000)
          (map GetBulkFundamentals (slices batchSize tickers (i + batchSize)))"
      using "1.IH" [OF True dvd' rest] .
    have nl: "(i div batchSize + 1 < (length tickers + batchSize - 1) div batchSize)
              = (i + batchSize < length tickers)"
      using not_last_iff [of i "length tickers"] "1.prems"(1) True by (simp add: batchSize_def)
    have unfold: "filter orchestratorEvent (fst (batchLoop w tickers i)) =
        GetBulkFundamentals (take batchSize (drop i tickers)) #
        (if i + batchSize < length tickers then [Timeout 1000] else [])
        @ intersperse (Timeout 1000)
            (map GetBulkFundamentals (slices batchSize tickers (i + batchSize)))"
      using True completes nl IH
      by (subst fst_batchLoop) (simp add: processBatch_orchestration)
    show ?thesis
    proof (cases "i + batchSize < length tickers")
      case True
      then have "slices batchSize tickers (i + batchSize) \<noteq> []"
        by (subst slices_unfold) (simp add: batchSize_def)
      then obtain b bs where nxt: "slices batchSize tickers (i + batchSize) = b # bs"
        by (cases "slices batchSize tickers (i + batchSize)") auto
      show ?thesis
        using True unfold by (simp add: sl nxt)
    next
      case False
      then have nxt: "slices batchSize tickers (i + batchSize) = []"
        by (subst slices_unfold) simp
      show ?thesis
        using False unfold by (simp add: sl nxt)
    qed
  qed
qed

lemma downloadFinancialsForTickerList_chunks:
  "List.map_filter fetchedBatch (fst (downloadFinancialsForTickerList w tickers)) =
     slices batchSize tickers 0
   \<and> concat (slices batchSize tickers 0) = tickers
   \<and> length (slices batchSize tickers 0) = (length tickers + 499) div 500
   \<and> (\<forall>batch \<in> set (slices batchSize tickers 0). batch \<noteq> [] \<and> length batch \<le> 500)"
proof -
  have "concat (slices batchSize tickers 0) = tickers"
    using concat_slices [of batchSize tickers 0] by (simp add: batchSize_def)
  moreover have "length (slices batchSize tickers 0) = (length tickers + 499) div 500"
    using length_slices [of tickers 0] by (simp add: batchSize_def)
  moreover have "\<forall>batch \<in> set (slices batchSize tickers 0). batch \<noteq> [] \<and> length batch \<le> 500"
    using slices_bounded [of _ batchSize tickers 0] by (simp add: batchSize_def)
  ultimately show ?thesis
    by (simp add: downloadFinancialsForTickerList_def fetched_batchLoop)
qed

lemma downloadFinancialsForTickerList_paced:
  assumes "\<forall>batch \<in> set (slices batchSize tickers 0). chunkCompletes w batch"
  shows "filter orchestratorEvent (fst (downloadFinancialsForTickerList w tickers)) =
           intersperse (Timeout 1000) (map GetBulkFundamentals (slices batchSize tickers 0))"
  using assms paced_batchLoop [of 0 tickers w]
  by (simp add: downloadFinancialsForTickerList_def)

lemma snd_batchLoop: "snd (batchLoop w tickers i) = Inr ()"
proof (induction w tickers i rule: batchLoop.induct)
  case (1 w tickers i)
  show ?case
  proof (cases "i < length tickers")
    case True
    then show ?thesis
      using "1.IH" by (subst batchLoop.simps) (simp add: snd_bindIO snd_processBatch)
  next
    case False
    then show ?thesis by (subst batchLoop.simps) (simp add: returnIO_def)
  qed
qed

lemma downloadFinancialsForTickerList_returns:
  "snd (downloadFinancialsForTickerList w tickers) = Inr ()"
  by (simp add: downloadFinancialsForTickerList_def snd_batchLoop)

section \<open>Pacing between chunks\<close>

text \<open>
  The partition of claim C4 holds for every list (\<open>downloadFinancialsForTickerList_chunks\<close>),
  and its delays hold when every chunk goes through
  (\<open>downloadFinancialsForTickerList_paced\<close>): 1200 tickers give three bulk calls of 500,
  500 and 200 tickers with a delay after the first and after the second. The delays do
  not hold when the bulk call of a chunk throws: the delay stands inside the \<open>try\<close>
  block, after the call, so the \<open>catch\<close> is entered without it and the next chunk is
  fetched at once.
\<close>

theorem failed_chunk_has_no_delay:
  "fst (downloadFinancialsForTickerList quietWorld (replicate 1200 ''A'')) =
     [GetBulkFundamentals (replicate 500 ''A''), Timeout 1000,
      GetBulkFundamentals (replicate 500 ''A''), Timeout 1000,
      GetBulkFundamentals (replicate 200 ''A'')]
   \<and> fst (downloadFinancialsForTickerList providerDownWorld (replicate 1200 ''A'')) =
     [GetBulkFundamentals (replicate 500 ''A''),
      ConsoleError ''Error fetching bulk fundamentals for batch'',
      GetBulkFundamentals (replicate 500 ''A''),
      ConsoleError ''Error fetching bulk fundamentals for batch'',
      GetBulkFundamentals (replicate 200 ''A''),
      ConsoleError ''Error fetching bulk fundamentals for batch'']"
  by (simp add: downloadFinancialsForTickerList_def batchLoop.simps processBatch_def
      batchSize_def io_defs quietWorld_def providerDownWorld_def Let_def)

text \<open>In short: with a failing provider no delay is made at all.\<close>

theorem failed_chunk_has_no_delay_witness:
  "Timeout 1000 \<notin> set (fst (downloadFinancialsForTickerList providerDownWorld
                                  (replicate 1200 ''A'')))"
  using failed_chunk_has_no_delay by simp

end
